theory Spec2Isabelle
  imports Main "HOL-Library.AList" "HOL-Library.Char_ord" "HOL-Library.List_Lexorder"
    "HOL-Library.Signed_Division"
begin

section \<open>Runtime values (runtime.cpp)\<close>

text \<open>
  The interpreter is embedded as follows.
  \<^item> An \<open>ObjectHolder\<close> is a \<open>std::shared_ptr<Object>\<close>. It is empty, or it shares the
    ownership of an object (\<open>Own p obj\<close>: the object at the address \<open>p\<close>, whose value is
    \<open>obj\<close>), or it is the pointer with a deleter that does nothing that
    \<open>ObjectHolder::Share\<close> makes (\<open>Share obj\<close>). Numbers, strings, booleans and classes are
    immutable, so a holder carries the value of its object; the address tells the
    holders of one object from the holders of another.
  \<^item> The store counts, for every address, the holders that own the object there
    (\<open>use_count\<close>, as \<open>std::shared_ptr::use_count\<close>). Copying a holder adds one, destroying
    a holder takes one away, and the object is deleted when the last holder goes. A
    pointer that \<open>TryAs\<close> or \<open>Get\<close> returned dangles once the object is deleted, and
    reading through it is undefined behaviour. In a state of the program the count of
    an object is the number of the holders of it that exist: those in the closures and
    the field tables, those the syntax tree holds, and the local and temporary holders
    of the calls that are running.
  \<^item> A \<open>ClassInstance\<close> is mutable through \<open>Fields()\<close>. It is modelled by the class it
    refers to (the member \<open>class_\<close>, immutable) and the address of its field table; the
    field tables of all instances live in the store (\<open>Fields\<close> of \<open>world\<close>). The sources
    make instances in one place, as the member \<open>class_instance_\<close> of a \<open>NewInstance\<close> node,
    and hand out \<open>Share\<close> holders of them; the syntax tree is not destroyed while the
    program runs, so the object of a \<open>Share\<close> holder is never deleted. The deletion of an
    instance that a holder owns, which the sources never make, is not followed into its
    fields.
  \<^item> A \<open>Class\<close> refers to its parent through a pointer to an immutable object; the
    parent is embedded by value.
  \<^item> A \<open>Closure\<close> is a \<open>std::map\<close> from names to holders, embedded as a list of pairs with
    one pair for a name: \<open>closure[name] = h\<close> replaces the pair of \<open>name\<close> or adds one.
  \<^item> \<open>Execute(closure, context)\<close> mutates the closure, the instances and the output
    stream of the context, and may leave by an exception. It is a function from the
    closure and the world to a result, the closure and the world.
\<close>

type_synonym addr = nat

text \<open>
  Modelled from the spec: \<open>runtime.h\<close> and \<open>statement.h\<close>, which declare the classes of
  the values and of the statements, are not among the sources. The values are those of
  the specification (\<open>Number\<close>, a 32-bit signed integer; \<open>String\<close>; \<open>Bool\<close>; \<open>Class\<close>,
  with a name, methods and an optional parent; \<open>ClassInstance\<close>, with its class and its
  fields), the holder is empty, owning or shared, and a \<open>Closure\<close> maps identifiers to
  holders. A statement has the members its constructor and its \<open>Execute\<close> in
  \<open>statement.cpp\<close> use. \<open>NewInstance\<close> holds an instance, \<open>class_instance_\<close>, built from
  the class by its constructor; \<open>Execute\<close> calls \<open>HasMethod\<close> and \<open>Call\<close> on it and returns
  \<open>Share(class_instance_)\<close>. A \<open>Comparator\<close> is one of the six comparisons of
  \<open>runtime.cpp\<close>.
\<close>

datatype Comparator =
  Equal_cmp | NotEqual_cmp | Less_cmp | Greater_cmp | LessOrEqual_cmp | GreaterOrEqual_cmp

datatype Statement =
    VariableValue "string list"
  | Assignment string Statement
  | FieldAssignment "string list" string Statement
  | None_stmt
  | Print "Statement list"
  | MethodCall Statement string "Statement list"
  | NewInstance Class addr "Statement list"
  | Stringify Statement
  | Add Statement Statement
  | Sub Statement Statement
  | Mult Statement Statement
  | Div Statement Statement
  | Or Statement Statement
  | And Statement Statement
  | Not_stmt Statement
  | Compound "Statement list"
  | MethodBody Statement
  | Return Statement
  | ClassDefinition ObjectHolder
  | IfElse Statement Statement "Statement option"
  | Comparison Comparator Statement Statement
and Class = Class (class_name: string) (class_methods: "Method list") (class_parent: "Class option")
and Method = Method (method_name: string) (formal_params: "string list") (body: Statement)
and Object =
    Number int
  | String string
  | Bool bool
  | ClassObject Class
  | ClassInstance Class addr
and ObjectHolder = NoneHolder | Own addr Object | Share Object

type_synonym Closure = "(string \<times> ObjectHolder) list"

record world =
  Fields :: "addr \<Rightarrow> Closure"
  output_stream :: string
  use_count :: "addr \<Rightarrow> nat"
  next_object :: addr

text \<open>
  How a call leaves other than by returning: a \<open>std::runtime_error\<close> with its message,
  a thrown \<open>ObjectHolder\<close> (the statement \<open>throw\<close> of \<open>Return::Execute\<close>), undefined
  behaviour (a null or dangling pointer dereferenced, a failed \<open>assert\<close>, signed
  overflow), or the fuel of the model used up (the program has not returned within the
  given call depth).
\<close>

datatype abrupt =
    runtime_error string
  | thrown_ObjectHolder ObjectHolder
  | undefined_behaviour
  | out_of_fuel

text \<open>
  Modelled from the spec: \<open>Get\<close> and \<open>TryAs<T>\<close> are declared in \<open>runtime.h\<close>. \<open>Get\<close>
  gives the object of a holder, or the null pointer of the empty holder; \<open>TryAs<T>\<close>
  gives it when it is a \<open>T\<close> (the downcast of the specification).
\<close>

definition Get :: "ObjectHolder \<Rightarrow> Object option" where
  "Get h = (case h of NoneHolder \<Rightarrow> None | Own p obj \<Rightarrow> Some obj | Share obj \<Rightarrow> Some obj)"

definition TryAs_Bool :: "ObjectHolder \<Rightarrow> bool option" where
  "TryAs_Bool h = (case Get h of Some (Bool b) \<Rightarrow> Some b | _ \<Rightarrow> None)"

definition TryAs_Number :: "ObjectHolder \<Rightarrow> int option" where
  "TryAs_Number h = (case Get h of Some (Number i) \<Rightarrow> Some i | _ \<Rightarrow> None)"

definition TryAs_String :: "ObjectHolder \<Rightarrow> string option" where
  "TryAs_String h = (case Get h of Some (String s) \<Rightarrow> Some s | _ \<Rightarrow> None)"

definition TryAs_Class :: "ObjectHolder \<Rightarrow> Class option" where
  "TryAs_Class h = (case Get h of Some (ClassObject c) \<Rightarrow> Some c | _ \<Rightarrow> None)"

definition TryAs_ClassInstance :: "ObjectHolder \<Rightarrow> (Class \<times> addr) option" where
  "TryAs_ClassInstance h = (case Get h of Some (ClassInstance c a) \<Rightarrow> Some (c, a) | _ \<Rightarrow> None)"

definition IsTrue :: "ObjectHolder \<Rightarrow> bool" where
  "IsTrue object =
     (case Get object of
        None \<Rightarrow> False
      | Some (Bool b) \<Rightarrow> b
      | Some (Number i) \<Rightarrow> i \<noteq> 0
      | Some (String s) \<Rightarrow> s \<noteq> []
      | Some _ \<Rightarrow> False)"

subsection \<open>The lifetime of objects\<close>

text \<open>
  The copy constructor and the destructor of a holder. The holder that \<open>Share\<close> made
  owns nothing, and the empty holder neither.
\<close>

definition copy_holder :: "ObjectHolder \<Rightarrow> world \<Rightarrow> world" where
  "copy_holder h w =
     (case h of
        Own p obj \<Rightarrow> w\<lparr>use_count := (use_count w)(p := use_count w p + 1)\<rparr>
      | _ \<Rightarrow> w)"

definition destroy_holder :: "ObjectHolder \<Rightarrow> world \<Rightarrow> world" where
  "destroy_holder h w =
     (case h of
        Own p obj \<Rightarrow> w\<lparr>use_count := (use_count w)(p := use_count w p - 1)\<rparr>
      | _ \<Rightarrow> w)"

text \<open>The destructor of a \<open>std::vector<ObjectHolder>\<close> and of a \<open>Closure\<close>.\<close>

definition destroy_holders :: "ObjectHolder list \<Rightarrow> world \<Rightarrow> world" where
  "destroy_holders hs w = fold destroy_holder hs w"

definition destroy_closure :: "Closure \<Rightarrow> world \<Rightarrow> world" where
  "destroy_closure c w = destroy_holders (map snd c) w"

text \<open>
  Modelled from the spec: \<open>ObjectHolder::Own\<close> is declared in \<open>runtime.h\<close>. It moves the
  object it is given into a new object on the heap, of which the holder it returns is
  the one owner.
\<close>

definition make_Own :: "Object \<Rightarrow> world \<Rightarrow> ObjectHolder \<times> world" where
  "make_Own obj w =
     (Own (next_object w) obj,
      w\<lparr>use_count := (use_count w)(next_object w := 1), next_object := next_object w + 1\<rparr>)"

text \<open>
  Whether a pointer taken from the holder \<open>h\<close> dangles in the world \<open>w\<close>: the object it
  points to had owners and has none left.
\<close>

definition expired :: "ObjectHolder \<Rightarrow> world \<Rightarrow> bool" where
  "expired h w = (case h of Own p obj \<Rightarrow> use_count w p = 0 | _ \<Rightarrow> False)"

text \<open>
  \<open>closure[name] = h\<close>. With a temporary on the right the holder is moved into the
  closure; with a named holder on the right it is copied. The holder that the closure
  had under the name is released, after the new one is in place.
\<close>

definition move_assign :: "string \<Rightarrow> ObjectHolder \<Rightarrow> Closure \<Rightarrow> world \<Rightarrow> Closure \<times> world" where
  "move_assign name h c w =
     (AList.update name h c,
      case map_of c name of Some old \<Rightarrow> destroy_holder old w | None \<Rightarrow> w)"

definition copy_assign :: "string \<Rightarrow> ObjectHolder \<Rightarrow> Closure \<Rightarrow> world \<Rightarrow> Closure \<times> world" where
  "copy_assign name h c w = move_assign name h c (copy_holder h w)"

subsection \<open>Classes and methods\<close>

text \<open>
  The constructor of \<open>Class\<close> fills \<open>table_methods\<close> in the order of \<open>methods_\<close>, so
  the last method of a name is the one the table keeps.
\<close>

definition table_methods :: "Method list \<Rightarrow> (string \<rightharpoonup> Method)" where
  "table_methods ms = fold (\<lambda>m t. t(method_name m \<mapsto> m)) ms Map.empty"

fun GetMethod :: "Class \<Rightarrow> string \<Rightarrow> Method option" where
  "GetMethod (Class nm ms par) method =
     (case table_methods ms method of
        Some m \<Rightarrow> Some m
      | None \<Rightarrow> (case par of Some p \<Rightarrow> GetMethod p method | None \<Rightarrow> None))"

definition HasMethod :: "Class \<Rightarrow> string \<Rightarrow> nat \<Rightarrow> bool" where
  "HasMethod cls method argument_count =
     (case GetMethod cls method of
        Some m \<Rightarrow> argument_count = length (formal_params m)
      | None \<Rightarrow> False)"

definition GetName :: "Class \<Rightarrow> abrupt + string" where
  "GetName cls =
     (if class_name cls = [] then Inl (runtime_error ''Name class is empty'') else Inr (class_name cls))"

text \<open>
  The loop of \<open>ClassInstance::Call\<close> that binds the formal parameters: each gets a copy
  of its argument.
\<close>

fun bind_params :: "string list \<Rightarrow> ObjectHolder list \<Rightarrow> Closure \<Rightarrow> world \<Rightarrow> Closure \<times> world" where
  "bind_params (p # ps) (a # as) c w =
     (case copy_assign p a c w of (c1, w1) \<Rightarrow> bind_params ps as c1 w1)"
| "bind_params _ _ c w = (c, w)"

subsection \<open>Printing numbers and addresses\<close>

text \<open>
  \<open>std::to_string\<close> and \<open>operator<<\<close> of a number: its decimal digits, after a minus sign
  when it is negative.
\<close>

fun to_string_nat :: "nat \<Rightarrow> string" where
  "to_string_nat n =
     (if n < 10 then [char_of (48 + n)]
      else to_string_nat (n div 10) @ [char_of (48 + n mod 10)])"

definition to_string :: "int \<Rightarrow> string" where
  "to_string i = (if i < 0 then CHR ''-'' # to_string_nat (nat (- i)) else to_string_nat (nat i))"

text \<open>
  \<open>os << this\<close> prints the address of an instance in a form the platform chooses;
  the model prints the address in decimal after \<open>0x\<close>.
\<close>

definition print_pointer :: "addr \<Rightarrow> string" where
  "print_pointer a = ''0x'' @ to_string_nat a"

definition INT_MIN :: int where "INT_MIN = - (2 ^ 31)"
definition INT_MAX :: int where "INT_MAX = 2 ^ 31 - 1"

text \<open>
  The result of signed \<open>int\<close> arithmetic, in a new \<open>Number\<close>; overflow is undefined
  behaviour.
\<close>

definition int_result :: "int \<Rightarrow> world \<Rightarrow> (abrupt + ObjectHolder) \<times> world" where
  "int_result val w =
     (if INT_MIN \<le> val \<and> val \<le> INT_MAX then
        (case make_Own (Number val) w of (h, w1) \<Rightarrow> (Inr h, w1))
      else (Inl undefined_behaviour, w))"

section \<open>Statements (statement.cpp)\<close>

subsection \<open>VariableValue\<close>

text \<open>
  The loop of \<open>VariableValue::Execute\<close> over the remaining identifiers, \<open>new_closure\<close>
  being the copy it looks the next identifier up in. The last identifier is the one
  with no identifier after it. An identifier that \<open>new_closure\<close> does not hold, and one
  whose holder is not a \<open>ClassInstance\<close>, leave \<open>new_closure\<close> as it is, and the loop
  goes on.
\<close>

definition VariableValue_error :: abrupt where
  "VariableValue_error =
     runtime_error ''Unexpected error of the \"VariableValue::Execute\" method''"

fun VariableValue_loop :: "string list \<Rightarrow> Closure \<Rightarrow> world \<Rightarrow> abrupt + ObjectHolder" where
  "VariableValue_loop [] new_closure w = Inl VariableValue_error"
| "VariableValue_loop (ident # ids) new_closure w =
     (case map_of new_closure ident of
        Some h \<Rightarrow>
          if ids = [] then Inr h
          else (case TryAs_ClassInstance h of
                  Some (cls, a) \<Rightarrow> VariableValue_loop ids (Fields w a) w
                | None \<Rightarrow> VariableValue_loop ids new_closure w)
      | None \<Rightarrow> VariableValue_loop ids new_closure w)"

text \<open>
  \<open>new_closure\<close> holds copies of the holders of the closure, and later of the fields
  of an instance, and is destroyed when \<open>Execute\<close> returns: the objects have the owners
  they had, and the one that is returned has one more, the holder returned.
\<close>

definition VariableValue_Execute :: "string list \<Rightarrow> Closure \<Rightarrow> world \<Rightarrow> (abrupt + ObjectHolder) \<times> world" where
  "VariableValue_Execute dotted_ids closure w =
     (case VariableValue_loop dotted_ids closure w of
        Inl e \<Rightarrow> (Inl e, w)
      | Inr h \<Rightarrow> (Inr h, copy_holder h w))"

subsection \<open>Field tables\<close>

text \<open>\<open>Fields()[field_name]\<close>: the field is created, empty, when the table lacks it.\<close>

definition index_field :: "addr \<Rightarrow> string \<Rightarrow> world \<Rightarrow> world" where
  "index_field a field_name w =
     (case map_of (Fields w a) field_name of
        Some h \<Rightarrow> w
      | None \<Rightarrow> w\<lparr>Fields := (Fields w)(a := AList.update field_name NoneHolder (Fields w a))\<rparr>)"

text \<open>\<open>field = h\<close> for a temporary \<open>h\<close>, \<open>field\<close> being the field of the instance at \<open>a\<close>.\<close>

definition set_field :: "addr \<Rightarrow> string \<Rightarrow> ObjectHolder \<Rightarrow> world \<Rightarrow> world" where
  "set_field a field_name h w =
     (case move_assign field_name h (Fields w a) w of
        (table, w1) \<Rightarrow> w1\<lparr>Fields := (Fields w1)(a := table)\<rparr>)"

text \<open>\<open>context.GetOutputStream() << s\<close>\<close>

definition write_output :: "string \<Rightarrow> world \<Rightarrow> world" where
  "write_output s w = w\<lparr>output_stream := output_stream w @ s\<rparr>"

subsection \<open>Execute\<close>

text \<open>
  The first argument is the fuel: the depth of method calls still allowed.
  \<open>ClassInstance::Call\<close> runs the body of the method with one less, and gives
  \<open>out_of_fuel\<close> at zero. \<open>Object_Print\<close> is \<open>Object::Print\<close> into the stream \<open>os\<close>, which
  it returns extended.

  A holder that a call returns is a temporary of the caller. One that initialises a
  local holder (\<open>ObjectHolder lhs_oh = ...\<close>) lives to the end of the function, also
  when the function is left by an exception; one that is moved into a vector lives as
  long as the vector; one that is only asked for a pointer
  (\<open>lhs_->Execute(closure, context).TryAs<runtime::Bool>()\<close>) is destroyed at the end of
  that statement, before the pointer is read.

  Modelled from the spec: \<open>Print\<close> of \<open>Number\<close> and of \<open>String\<close> is declared in \<open>runtime.h\<close>;
  it writes the value.
\<close>

function (sequential) Execute :: "nat \<Rightarrow> Statement \<Rightarrow> Closure \<Rightarrow> world \<Rightarrow> (abrupt + ObjectHolder) \<times> Closure \<times> world"
and Execute_args :: "nat \<Rightarrow> Statement list \<Rightarrow> Closure \<Rightarrow> world \<Rightarrow> (abrupt + ObjectHolder list) \<times> Closure \<times> world"
and Compound_loop :: "nat \<Rightarrow> Statement list \<Rightarrow> Closure \<Rightarrow> world \<Rightarrow> (abrupt + ObjectHolder) \<times> Closure \<times> world"
and Print_loop :: "nat \<Rightarrow> Statement list \<Rightarrow> bool \<Rightarrow> string \<Rightarrow> Closure \<Rightarrow> world \<Rightarrow> (abrupt + string) \<times> Closure \<times> world"
and Call :: "nat \<Rightarrow> Class \<Rightarrow> addr \<Rightarrow> string \<Rightarrow> ObjectHolder list \<Rightarrow> world \<Rightarrow> (abrupt + ObjectHolder) \<times> world"
and Object_Print :: "nat \<Rightarrow> Object \<Rightarrow> string \<Rightarrow> world \<Rightarrow> (abrupt + string) \<times> world"
and Equal :: "nat \<Rightarrow> ObjectHolder \<Rightarrow> ObjectHolder \<Rightarrow> world \<Rightarrow> (abrupt + bool) \<times> world"
and Less :: "nat \<Rightarrow> ObjectHolder \<Rightarrow> ObjectHolder \<Rightarrow> world \<Rightarrow> (abrupt + bool) \<times> world"
and NotEqual :: "nat \<Rightarrow> ObjectHolder \<Rightarrow> ObjectHolder \<Rightarrow> world \<Rightarrow> (abrupt + bool) \<times> world"
and Greater :: "nat \<Rightarrow> ObjectHolder \<Rightarrow> ObjectHolder \<Rightarrow> world \<Rightarrow> (abrupt + bool) \<times> world"
and LessOrEqual :: "nat \<Rightarrow> ObjectHolder \<Rightarrow> ObjectHolder \<Rightarrow> world \<Rightarrow> (abrupt + bool) \<times> world"
and GreaterOrEqual :: "nat \<Rightarrow> ObjectHolder \<Rightarrow> ObjectHolder \<Rightarrow> world \<Rightarrow> (abrupt + bool) \<times> world"
and apply_cmp :: "nat \<Rightarrow> Comparator \<Rightarrow> ObjectHolder \<Rightarrow> ObjectHolder \<Rightarrow> world \<Rightarrow> (abrupt + bool) \<times> world"
where
  "Execute n (VariableValue dotted_ids) closure w =
     (case VariableValue_Execute dotted_ids closure w of (r, w1) \<Rightarrow> (r, closure, w1))"
| "Execute n (Assignment variable_name r_value) closure w =
     (case Execute n r_value closure w of
        (Inl e, c1, w1) \<Rightarrow> (Inl e, c1, w1)
      | (Inr v, c1, w1) \<Rightarrow>
          (case move_assign variable_name v c1 w1 of
             (c2, w2) \<Rightarrow> (Inr v, c2, copy_holder v w2)))"
| "Execute n (FieldAssignment object field_name r_value) closure w =
     (case VariableValue_Execute object closure w of
        (Inl e, w0) \<Rightarrow> (Inl e, closure, w0)
      | (Inr obj, w0) \<Rightarrow>
          (case TryAs_ClassInstance obj of
             None \<Rightarrow>
               (Inl (runtime_error ''FieldAssignment::Execute. The object is not a custom type''),
                closure, destroy_holder obj w0)
           | Some (cls, a) \<Rightarrow>
               (case Execute n r_value closure (index_field a field_name w0) of
                  (Inl e, c1, w1) \<Rightarrow> (Inl e, c1, destroy_holder obj w1)
                | (Inr v, c1, w1) \<Rightarrow>
                    (case copy_assign field_name v c1 (set_field a field_name v w1) of
                       (c2, w2) \<Rightarrow> (Inr v, c2, destroy_holder obj (copy_holder v w2))))))"
| "Execute n None_stmt closure w = (Inr NoneHolder, closure, w)"
| "Execute n (Print args) closure w =
     (case Print_loop n args True [] closure w of
        (Inl e, c1, w1) \<Rightarrow> (Inl e, c1, w1)
      | (Inr os, c1, w1) \<Rightarrow>
          (case make_Own (String os) (write_output (os @ [CHR 0x0A]) w1) of
             (h, w2) \<Rightarrow> (Inr h, c1, w2)))"
| "Execute n (MethodCall object method args) closure w =
     (case Execute n object closure w of
        (Inl e, c1, w1) \<Rightarrow> (Inl e, c1, w1)
      | (Inr obj, c1, w1) \<Rightarrow>
          (case TryAs_ClassInstance obj of
             None \<Rightarrow>
               (Inl (runtime_error ''MethodCall::Execute. The object is not a custom type''),
                c1, destroy_holder obj w1)
           | Some (cls, a) \<Rightarrow>
               if expired obj (destroy_holder obj w1) then
                 (Inl undefined_behaviour, c1, destroy_holder obj w1)
               else if \<not> HasMethod cls method (length args) then
                 (Inl (runtime_error (''MethodCall::Execute. The class does not have a \"'' @ method
                    @ ''\" method with '' @ to_string_nat (length args) @ '' arguments'')),
                  c1, destroy_holder obj w1)
               else
                 (case Execute_args n args c1 (destroy_holder obj w1) of
                    (Inl e, c2, w2) \<Rightarrow> (Inl e, c2, w2)
                  | (Inr actual_args, c2, w2) \<Rightarrow>
                      if expired obj w2 then
                        (Inl undefined_behaviour, c2, destroy_holders actual_args w2)
                      else
                        (case Call n cls a method actual_args w2 of
                           (r, w3) \<Rightarrow> (r, c2, destroy_holders actual_args w3)))))"
| "Execute n (NewInstance cls a args) closure w =
     (if HasMethod cls ''__init__'' (length args) then
        (case Execute_args n args closure w of
           (Inl e, c1, w1) \<Rightarrow> (Inl e, c1, w1)
         | (Inr actual_args, c1, w1) \<Rightarrow>
             (case Call n cls a ''__init__'' actual_args w1 of
                (Inl e, w2) \<Rightarrow> (Inl e, c1, destroy_holders actual_args w2)
              | (Inr r, w2) \<Rightarrow>
                  (Inr (Share (ClassInstance cls a)), c1,
                   destroy_holders actual_args (destroy_holder r w2))))
      else (Inr (Share (ClassInstance cls a)), closure, w))"
| "Execute n (Stringify argument) closure w =
     (case Execute n argument closure w of
        (Inl e, c1, w1) \<Rightarrow> (Inl e, c1, w1)
      | (Inr oh, c1, w1) \<Rightarrow>
          (case Get oh of
             None \<Rightarrow>
               (case make_Own (String ''None'') w1 of (h, w2) \<Rightarrow> (Inr h, c1, w2))
           | Some obj \<Rightarrow>
               if expired oh (destroy_holder oh w1) then
                 (Inl undefined_behaviour, c1, destroy_holder oh w1)
               else
                 (case Object_Print n obj [] (destroy_holder oh w1) of
                    (Inl e, w2) \<Rightarrow> (Inl e, c1, w2)
                  | (Inr out, w2) \<Rightarrow>
                      (case make_Own (String out) w2 of (h, w3) \<Rightarrow> (Inr h, c1, w3)))))"
| "Execute n (Add lhs rhs) closure w =
     (case Execute n lhs closure w of
        (Inl e, c1, w1) \<Rightarrow> (Inl e, c1, w1)
      | (Inr lhs_oh, c1, w1) \<Rightarrow>
          (case Execute n rhs c1 w1 of
             (Inl e, c2, w2) \<Rightarrow> (Inl e, c2, destroy_holder lhs_oh w2)
           | (Inr rhs_oh, c2, w2) \<Rightarrow>
               (case
                  (case TryAs_Number lhs_oh of
                     Some lhs_n \<Rightarrow>
                       (case TryAs_Number rhs_oh of
                          Some rhs_n \<Rightarrow> int_result (lhs_n + rhs_n) w2
                        | None \<Rightarrow> (Inl (runtime_error ''Add::Execute is failed''), w2))
                   | None \<Rightarrow>
                       (case TryAs_String lhs_oh of
                          Some lhs_s \<Rightarrow>
                            (case TryAs_String rhs_oh of
                               Some rhs_s \<Rightarrow>
                                 (case make_Own (String (lhs_s @ rhs_s)) w2 of
                                    (h, w3) \<Rightarrow> (Inr h, w3))
                             | None \<Rightarrow> (Inl (runtime_error ''Add::Execute is failed''), w2))
                        | None \<Rightarrow>
                            (case TryAs_ClassInstance lhs_oh of
                               Some (cls, a) \<Rightarrow>
                                 if HasMethod cls ''__add__'' 1 then
                                   (case Call n cls a ''__add__'' [rhs_oh]
                                           (copy_holder rhs_oh (copy_holder rhs_oh w2)) of
                                      (r, w3) \<Rightarrow>
                                        (r, destroy_holder rhs_oh (destroy_holder rhs_oh w3)))
                                 else (Inl (runtime_error ''Add::Execute is failed''), w2)
                             | None \<Rightarrow> (Inl (runtime_error ''Add::Execute is failed''), w2))))
                of (r, w4) \<Rightarrow> (r, c2, destroy_holder lhs_oh (destroy_holder rhs_oh w4)))))"
| "Execute n (Sub lhs rhs) closure w =
     (case Execute n lhs closure w of
        (Inl e, c1, w1) \<Rightarrow> (Inl e, c1, w1)
      | (Inr lhs_oh, c1, w1) \<Rightarrow>
          (case Execute n rhs c1 w1 of
             (Inl e, c2, w2) \<Rightarrow> (Inl e, c2, destroy_holder lhs_oh w2)
           | (Inr rhs_oh, c2, w2) \<Rightarrow>
               (case
                  (case (TryAs_Number lhs_oh, TryAs_Number rhs_oh) of
                     (Some lhs_n, Some rhs_n) \<Rightarrow> int_result (lhs_n - rhs_n) w2
                   | _ \<Rightarrow> (Inl (runtime_error ''Sub::Execute is failed''), w2))
                of (r, w4) \<Rightarrow> (r, c2, destroy_holder lhs_oh (destroy_holder rhs_oh w4)))))"
| "Execute n (Mult lhs rhs) closure w =
     (case Execute n lhs closure w of
        (Inl e, c1, w1) \<Rightarrow> (Inl e, c1, w1)
      | (Inr lhs_oh, c1, w1) \<Rightarrow>
          (case Execute n rhs c1 w1 of
             (Inl e, c2, w2) \<Rightarrow> (Inl e, c2, destroy_holder lhs_oh w2)
           | (Inr rhs_oh, c2, w2) \<Rightarrow>
               (case
                  (case (TryAs_Number lhs_oh, TryAs_Number rhs_oh) of
                     (Some lhs_n, Some rhs_n) \<Rightarrow> int_result (lhs_n * rhs_n) w2
                   | _ \<Rightarrow> (Inl (runtime_error ''Mult::Execute is failed''), w2))
                of (r, w4) \<Rightarrow> (r, c2, destroy_holder lhs_oh (destroy_holder rhs_oh w4)))))"
| "Execute n (Div lhs rhs) closure w =
     (case Execute n lhs closure w of
        (Inl e, c1, w1) \<Rightarrow> (Inl e, c1, w1)
      | (Inr lhs_oh, c1, w1) \<Rightarrow>
          (case Execute n rhs c1 w1 of
             (Inl e, c2, w2) \<Rightarrow> (Inl e, c2, destroy_holder lhs_oh w2)
           | (Inr rhs_oh, c2, w2) \<Rightarrow>
               (case
                  (case (TryAs_Number lhs_oh, TryAs_Number rhs_oh) of
                     (Some lhs_n, Some rhs_n) \<Rightarrow>
                       if rhs_n \<noteq> 0 then int_result (lhs_n sdiv rhs_n) w2
                       else (Inl (runtime_error ''Div::Execute is failed''), w2)
                   | _ \<Rightarrow> (Inl (runtime_error ''Div::Execute is failed''), w2))
                of (r, w4) \<Rightarrow> (r, c2, destroy_holder lhs_oh (destroy_holder rhs_oh w4)))))"
| "Execute n (Or lhs rhs) closure w =
     (case Execute n lhs closure w of
        (Inl e, c1, w1) \<Rightarrow> (Inl e, c1, w1)
      | (Inr lhs_oh, c1, w1) \<Rightarrow>
          if TryAs_Bool lhs_oh \<noteq> None \<and> expired lhs_oh (destroy_holder lhs_oh w1) then
            (Inl undefined_behaviour, c1, destroy_holder lhs_oh w1)
          else if TryAs_Bool lhs_oh = Some True then
            (case make_Own (Bool True) (destroy_holder lhs_oh w1) of (h, w2) \<Rightarrow> (Inr h, c1, w2))
          else
            (case Execute n rhs c1 (destroy_holder lhs_oh w1) of
               (Inl e, c2, w2) \<Rightarrow> (Inl e, c2, w2)
             | (Inr rhs_oh, c2, w2) \<Rightarrow>
                 if TryAs_Bool rhs_oh \<noteq> None \<and> expired rhs_oh (destroy_holder rhs_oh w2) then
                   (Inl undefined_behaviour, c2, destroy_holder rhs_oh w2)
                 else
                   (case make_Own (Bool (TryAs_Bool rhs_oh = Some True)) (destroy_holder rhs_oh w2) of
                      (h, w3) \<Rightarrow> (Inr h, c2, w3))))"
| "Execute n (And lhs rhs) closure w =
     (case Execute n lhs closure w of
        (Inl e, c1, w1) \<Rightarrow> (Inl e, c1, w1)
      | (Inr lhs_oh, c1, w1) \<Rightarrow>
          if TryAs_Bool lhs_oh \<noteq> None \<and> expired lhs_oh (destroy_holder lhs_oh w1) then
            (Inl undefined_behaviour, c1, destroy_holder lhs_oh w1)
          else if TryAs_Bool lhs_oh \<noteq> Some True then
            (case make_Own (Bool False) (destroy_holder lhs_oh w1) of (h, w2) \<Rightarrow> (Inr h, c1, w2))
          else
            (case Execute n rhs c1 (destroy_holder lhs_oh w1) of
               (Inl e, c2, w2) \<Rightarrow> (Inl e, c2, w2)
             | (Inr rhs_oh, c2, w2) \<Rightarrow>
                 if TryAs_Bool rhs_oh \<noteq> None \<and> expired rhs_oh (destroy_holder rhs_oh w2) then
                   (Inl undefined_behaviour, c2, destroy_holder rhs_oh w2)
                 else
                   (case make_Own (Bool (TryAs_Bool rhs_oh = Some True)) (destroy_holder rhs_oh w2) of
                      (h, w3) \<Rightarrow> (Inr h, c2, w3))))"
| "Execute n (Not_stmt argument) closure w =
     (case Execute n argument closure w of
        (Inl e, c1, w1) \<Rightarrow> (Inl e, c1, w1)
      | (Inr arg, c1, w1) \<Rightarrow>
          (case TryAs_Bool arg of
             None \<Rightarrow>
               (Inl (runtime_error
                  ''Not::Execute. The argument cannot be cast to the \"runtime::Bool\" type''),
                c1, destroy_holder arg w1)
           | Some b \<Rightarrow>
               if expired arg (destroy_holder arg w1) then
                 (Inl undefined_behaviour, c1, destroy_holder arg w1)
               else
                 (case make_Own (Bool (\<not> b)) (destroy_holder arg w1) of
                    (h, w2) \<Rightarrow> (Inr h, c1, w2))))"
| "Execute n (Compound statements) closure w = Compound_loop n statements closure w"
| "Execute n (MethodBody body_stmt) closure w =
     (case Execute n body_stmt closure w of
        (Inl (thrown_ObjectHolder result), c1, w1) \<Rightarrow> (Inr result, c1, w1)
      | r \<Rightarrow> r)"
| "Execute n (Return statement) closure w =
     (case Execute n statement closure w of
        (Inl e, c1, w1) \<Rightarrow> (Inl e, c1, w1)
      | (Inr v, c1, w1) \<Rightarrow> (Inl (thrown_ObjectHolder v), c1, w1))"
| "Execute n (ClassDefinition cls_holder) closure w =
     (case TryAs_Class cls_holder of
        None \<Rightarrow> (Inl undefined_behaviour, closure, w)
      | Some cls \<Rightarrow>
          (case GetName cls of
             Inl e \<Rightarrow> (Inl e, closure, w)
           | Inr nm \<Rightarrow>
               (case copy_assign nm cls_holder closure w of
                  (c1, w1) \<Rightarrow> (Inr cls_holder, c1, copy_holder cls_holder w1))))"
| "Execute n (IfElse condition if_body else_body) closure w =
     (case Execute n condition closure w of
        (Inl e, c1, w1) \<Rightarrow> (Inl e, c1, w1)
      | (Inr cond, c1, w1) \<Rightarrow>
          (case TryAs_Bool cond of
             Some b \<Rightarrow>
               if b then
                 (case Execute n if_body c1 w1 of (r, c2, w2) \<Rightarrow> (r, c2, destroy_holder cond w2))
               else
                 (case else_body of
                    Some else_stmt \<Rightarrow>
                      (case Execute n else_stmt c1 w1 of
                         (r, c2, w2) \<Rightarrow> (r, c2, destroy_holder cond w2))
                  | None \<Rightarrow> (Inr NoneHolder, c1, destroy_holder cond w1))
           | None \<Rightarrow> (Inl (runtime_error ''Execute is failed''), c1, destroy_holder cond w1)))"
| "Execute n (Comparison cmp lhs rhs) closure w =
     (case Execute n lhs closure w of
        (Inl e, c1, w1) \<Rightarrow> (Inl e, c1, w1)
      | (Inr lhs_oh, c1, w1) \<Rightarrow>
          (case Execute n rhs c1 w1 of
             (Inl e, c2, w2) \<Rightarrow> (Inl e, c2, destroy_holder lhs_oh w2)
           | (Inr rhs_oh, c2, w2) \<Rightarrow>
               (case apply_cmp n cmp lhs_oh rhs_oh w2 of
                  (Inl e, w3) \<Rightarrow>
                    (Inl e, c2, destroy_holder lhs_oh (destroy_holder rhs_oh w3))
                | (Inr result, w3) \<Rightarrow>
                    (case make_Own (Bool result) w3 of
                       (h, w4) \<Rightarrow>
                         (Inr h, c2, destroy_holder lhs_oh (destroy_holder rhs_oh w4))))))"
| "Execute_args n [] closure w = (Inr [], closure, w)"
| "Execute_args n (arg # args) closure w =
     (case Execute n arg closure w of
        (Inl e, c1, w1) \<Rightarrow> (Inl e, c1, w1)
      | (Inr v, c1, w1) \<Rightarrow>
          (case Execute_args n args c1 w1 of
             (Inl e, c2, w2) \<Rightarrow> (Inl e, c2, destroy_holder v w2)
           | (Inr vs, c2, w2) \<Rightarrow> (Inr (v # vs), c2, w2)))"
| "Compound_loop n [] closure w = (Inr NoneHolder, closure, w)"
| "Compound_loop n (statement # statements) closure w =
     (case Execute n statement closure w of
        (Inl e, c1, w1) \<Rightarrow> (Inl e, c1, w1)
      | (Inr v, c1, w1) \<Rightarrow> Compound_loop n statements c1 (destroy_holder v w1))"
| "Print_loop n [] first os closure w = (Inr os, closure, w)"
| "Print_loop n (arg # args) first os closure w =
     (case Execute n arg closure w of
        (Inl e, c1, w1) \<Rightarrow> (Inl e, c1, w1)
      | (Inr oh, c1, w1) \<Rightarrow>
          (case Get oh of
             None \<Rightarrow>
               Print_loop n args False ((if first then os else os @ '' '') @ ''None'') c1 w1
           | Some obj \<Rightarrow>
               (case Object_Print n obj (if first then os else os @ '' '') w1 of
                  (Inl e, w2) \<Rightarrow> (Inl e, c1, destroy_holder oh w2)
                | (Inr os2, w2) \<Rightarrow> Print_loop n args False os2 c1 (destroy_holder oh w2))))"
| "Call n cls a method actual_args w =
     (if \<not> HasMethod cls method (length actual_args) then
        (Inl (runtime_error (''The \"'' @ method @ ''\" method was not found'')), w)
      else
        (case GetMethod cls method of
           None \<Rightarrow> (Inl undefined_behaviour, w)
         | Some m \<Rightarrow>
             if length (formal_params m) > length actual_args then
               (Inl (runtime_error ''More arguments are expected''), w)
             else if n = 0 then (Inl out_of_fuel, w)
             else
               (case bind_params (formal_params m) actual_args
                       [(''self'', Share (ClassInstance cls a))] w of
                  (current_obj_and_his_methods, w0) \<Rightarrow>
                    (case Execute (n - 1) (body m) current_obj_and_his_methods w0 of
                       (r, c1, w1) \<Rightarrow> (r, destroy_closure c1 w1)))))"
| "Object_Print n (Number i) os w = (Inr (os @ to_string i), w)"
| "Object_Print n (String s) os w = (Inr (os @ s), w)"
| "Object_Print n (Bool b) os w = (Inr (os @ (if b then ''True'' else ''False'')), w)"
| "Object_Print n (ClassObject cls) os w = (Inr (os @ ''Class '' @ class_name cls), w)"
| "Object_Print n (ClassInstance cls a) os w =
     (if HasMethod cls ''__str__'' 0 then
        (case Call n cls a ''__str__'' [] w of
           (Inl e, w1) \<Rightarrow> (Inl e, w1)
         | (Inr h, w1) \<Rightarrow>
             (case Get h of
                None \<Rightarrow> (Inl undefined_behaviour, w1)
              | Some obj \<Rightarrow>
                  if n = 0 then (Inl out_of_fuel, w1)
                  else
                    (case Object_Print (n - 1) obj os w1 of
                       (r, w2) \<Rightarrow> (r, destroy_holder h w2))))
      else (Inr (os @ print_pointer a), w))"
| "Equal n lhs rhs w =
     (if Get lhs = None \<and> Get rhs = None then (Inr True, w)
      else
        (case (TryAs_Bool lhs, TryAs_Bool rhs) of
           (Some x, Some y) \<Rightarrow> (Inr (x = y), w)
         | _ \<Rightarrow>
        (case (TryAs_Number lhs, TryAs_Number rhs) of
           (Some x, Some y) \<Rightarrow> (Inr (x = y), w)
         | _ \<Rightarrow>
        (case (TryAs_String lhs, TryAs_String rhs) of
           (Some x, Some y) \<Rightarrow> (Inr (x = y), w)
         | _ \<Rightarrow>
        (case TryAs_ClassInstance lhs of
           Some (cls, a) \<Rightarrow>
             if HasMethod cls ''__eq__'' 1 then
               (case Call n cls a ''__eq__'' [rhs] (copy_holder rhs (copy_holder rhs w)) of
                  (Inl e, w1) \<Rightarrow> (Inl e, destroy_holder rhs (destroy_holder rhs w1))
                | (Inr r, w1) \<Rightarrow>
                    (case TryAs_Bool r of
                       Some b \<Rightarrow>
                         (Inr b, destroy_holder rhs (destroy_holder rhs (destroy_holder r w1)))
                     | None \<Rightarrow> (Inl undefined_behaviour, w1)))
             else (Inl (runtime_error ''Cannot compare objects for equality''), w)
         | None \<Rightarrow> (Inl (runtime_error ''Cannot compare objects for equality''), w))))))"
| "Less n lhs rhs w =
        (case (TryAs_Bool lhs, TryAs_Bool rhs) of
           (Some x, Some y) \<Rightarrow> (Inr (x < y), w)
         | _ \<Rightarrow>
        (case (TryAs_Number lhs, TryAs_Number rhs) of
           (Some x, Some y) \<Rightarrow> (Inr (x < y), w)
         | _ \<Rightarrow>
        (case (TryAs_String lhs, TryAs_String rhs) of
           (Some x, Some y) \<Rightarrow> (Inr (x < y), w)
         | _ \<Rightarrow>
        (case TryAs_ClassInstance lhs of
           Some (cls, a) \<Rightarrow>
             if HasMethod cls ''__lt__'' 1 then
               (case Call n cls a ''__lt__'' [rhs] (copy_holder rhs (copy_holder rhs w)) of
                  (Inl e, w1) \<Rightarrow> (Inl e, destroy_holder rhs (destroy_holder rhs w1))
                | (Inr r, w1) \<Rightarrow>
                    (case TryAs_Bool r of
                       Some b \<Rightarrow>
                         (Inr b, destroy_holder rhs (destroy_holder rhs (destroy_holder r w1)))
                     | None \<Rightarrow> (Inl undefined_behaviour, w1)))
             else (Inl (runtime_error ''Cannot compare objects for less''), w)
         | None \<Rightarrow> (Inl (runtime_error ''Cannot compare objects for less''), w)))))"
| "NotEqual n lhs rhs w =
     (case Equal n lhs rhs w of (Inl e, w1) \<Rightarrow> (Inl e, w1) | (Inr b, w1) \<Rightarrow> (Inr (\<not> b), w1))"
| "Greater n lhs rhs w =
     (case Less n lhs rhs w of
        (Inl e, w1) \<Rightarrow> (Inl e, w1)
      | (Inr b, w1) \<Rightarrow> if b then (Inr False, w1) else NotEqual n lhs rhs w1)"
| "LessOrEqual n lhs rhs w =
     (case Less n lhs rhs w of
        (Inl e, w1) \<Rightarrow> (Inl e, w1)
      | (Inr b, w1) \<Rightarrow> if b then (Inr True, w1) else Equal n lhs rhs w1)"
| "GreaterOrEqual n lhs rhs w =
     (case Less n lhs rhs w of (Inl e, w1) \<Rightarrow> (Inl e, w1) | (Inr b, w1) \<Rightarrow> (Inr (\<not> b), w1))"
| "apply_cmp n Equal_cmp lhs rhs w = Equal n lhs rhs w"
| "apply_cmp n NotEqual_cmp lhs rhs w = NotEqual n lhs rhs w"
| "apply_cmp n Less_cmp lhs rhs w = Less n lhs rhs w"
| "apply_cmp n Greater_cmp lhs rhs w = Greater n lhs rhs w"
| "apply_cmp n LessOrEqual_cmp lhs rhs w = LessOrEqual n lhs rhs w"
| "apply_cmp n GreaterOrEqual_cmp lhs rhs w = GreaterOrEqual n lhs rhs w"
  by pat_completeness auto

termination
  by (relation "inv_image (less_than <*lex*> less_than)
       (case_sum
         (case_sum
           (case_sum (\<lambda>(n, s, c, w). (n, 6 + size s))
             (case_sum (\<lambda>(n, ss, c, w). (n, 6 + size_list size ss))
                       (\<lambda>(n, ss, c, w). (n, 6 + size_list size ss))))
           (case_sum (\<lambda>(n, ss, f, os, c, w). (n, 6 + size_list size ss))
             (case_sum (\<lambda>(n, cls, a, m, args, w). (n, 0))
                       (\<lambda>(n, obj, os, w). (n, 1)))))
         (case_sum
           (case_sum (\<lambda>(n, l, r, w). (n, 1))
             (case_sum (\<lambda>(n, l, r, w). (n, 1)) (\<lambda>(n, l, r, w). (n, 2))))
           (case_sum
             (case_sum (\<lambda>(n, l, r, w). (n, 3)) (\<lambda>(n, l, r, w). (n, 3)))
             (case_sum (\<lambda>(n, l, r, w). (n, 2)) (\<lambda>(n, cmp, l, r, w). (n, 4))))))")
     auto

section \<open>Lexer (lexer.h, lexer.cpp)\<close>

datatype Token =
    Token_Number int
  | Token_Id string
  | Token_Char char
  | Token_String string
  | Token_Class | Token_Return | Token_If | Token_Else | Token_Def | Token_Newline
  | Token_Print | Token_Indent | Token_Dedent | Token_And | Token_Or | Token_Not
  | Token_Eq | Token_NotEq | Token_LessOrEq | Token_GreaterOrEq
  | Token_None | Token_True | Token_False | Token_Eof

datatype lexer_exception = LexerError string | out_of_range | assertion_failed

subsection \<open>The input stream\<close>

record istream =
  chars :: string
  eofbit :: bool
  failbit :: bool

definition good :: "istream \<Rightarrow> bool" where
  "good s = (\<not> eofbit s \<and> \<not> failbit s)"

definition peek :: "istream \<Rightarrow> char option \<times> istream" where
  "peek s =
     (if \<not> good s then (None, s\<lparr>failbit := True\<rparr>)
      else case chars s of
             [] \<Rightarrow> (None, s\<lparr>eofbit := True\<rparr>)
           | c # cs \<Rightarrow> (Some c, s))"

definition get :: "istream \<Rightarrow> char option \<times> istream" where
  "get s =
     (if \<not> good s then (None, s\<lparr>failbit := True\<rparr>)
      else case chars s of
             [] \<Rightarrow> (None, s\<lparr>eofbit := True, failbit := True\<rparr>)
           | c # cs \<Rightarrow> (Some c, s\<lparr>chars := cs\<rparr>))"

definition putback :: "char \<Rightarrow> istream \<Rightarrow> istream" where
  "putback c s =
     (if failbit s then s\<lparr>eofbit := False\<rparr>
      else s\<lparr>chars := c # chars s, eofbit := False\<rparr>)"

definition getline :: "istream \<Rightarrow> istream" where
  "getline s =
     (if \<not> good s then s\<lparr>failbit := True\<rparr>
      else case dropWhile (\<lambda>c. c \<noteq> CHR 0x0A) (chars s) of
             [] \<Rightarrow> s\<lparr>chars := [], eofbit := True, failbit := (chars s = [])\<rparr>
           | c # cs \<Rightarrow> s\<lparr>chars := cs\<rparr>)"

subsection \<open>Character classes of the C locale\<close>

definition isdigit :: "char \<Rightarrow> bool" where
  "isdigit c = (CHR ''0'' \<le> c \<and> c \<le> CHR ''9'')"

definition isalpha :: "char \<Rightarrow> bool" where
  "isalpha c = ((CHR ''a'' \<le> c \<and> c \<le> CHR ''z'') \<or> (CHR ''A'' \<le> c \<and> c \<le> CHR ''Z''))"

definition isalnum :: "char \<Rightarrow> bool" where
  "isalnum c = (isalpha c \<or> isdigit c)"

definition ispunct :: "char \<Rightarrow> bool" where
  "ispunct c =
     ((CHR 0x21 \<le> c \<and> c \<le> CHR 0x2F) \<or> (CHR 0x3A \<le> c \<and> c \<le> CHR 0x40) \<or>
      (CHR 0x5B \<le> c \<and> c \<le> CHR 0x60) \<or> (CHR 0x7B \<le> c \<and> c \<le> CHR 0x7E))"

lemma get_Some_shorter:
  "get s = (Some c, s1) \<Longrightarrow> length (chars s1) < length (chars s)"
  by (auto simp: get_def split: if_splits list.splits)

lemma peek_Some_same:
  "peek s = (Some c, s1) \<Longrightarrow> s1 = s \<and> good s \<and> chars s \<noteq> []"
  by (auto simp: peek_def split: if_splits list.splits)

lemma peek_get_shorter:
  "peek s = (Some c, s1) \<Longrightarrow> length (chars (snd (get s1))) < length (chars s)"
  by (auto simp: peek_def get_def split: if_splits list.splits)

function ReadWord :: "istream \<Rightarrow> string \<Rightarrow> string \<times> istream" where
  "ReadWord input parsed_word =
     (case get input of
        (None, s) \<Rightarrow> (parsed_word, s)
      | (Some symbol, s) \<Rightarrow>
          if isalnum symbol \<or> symbol = CHR ''_'' then ReadWord s (parsed_word @ [symbol])
          else (parsed_word, putback symbol s))"
  by pat_completeness auto
termination
  by (relation "measure (\<lambda>(s, w). length (chars s))") (auto intro: get_Some_shorter [OF sym])


text \<open>
  The equations of the loops over the stream are unfolded on demand only: as rewrite
  rules they apply to their own right-hand sides.
\<close>

declare ReadWord.simps [simp del]

text \<open>The loop of \<open>ExtractIntValue\<close> that reads the digits after the first.\<close>

function read_digits :: "istream \<Rightarrow> string \<Rightarrow> string \<times> istream" where
  "read_digits input parsed_num =
     (case get input of
        (None, s) \<Rightarrow> (parsed_num, s)
      | (Some symbol, s) \<Rightarrow>
          if isdigit symbol then read_digits s (parsed_num @ [symbol])
          else (parsed_num, putback symbol s))"
  by pat_completeness auto
termination
  by (relation "measure (\<lambda>(s, w). length (chars s))") (auto intro: get_Some_shorter [OF sym])

declare read_digits.simps [simp del]

text \<open>
  \<open>std::stoi\<close> of a string of digits: the number, or \<open>std::out_of_range\<close> when it does
  not fit \<open>int\<close>.
\<close>

definition stoi :: "string \<Rightarrow> lexer_exception + int" where
  "stoi parsed_num =
     (let num = fold (\<lambda>c v. 10 * v + (of_char c - 48)) parsed_num (0 :: int)
      in if num \<le> INT_MAX then Inr num else Inl out_of_range)"

text \<open>The \<open>switch\<close> of \<open>ExtractString\<close> over the character after a backslash.\<close>

definition escaped :: "char \<Rightarrow> char option" where
  "escaped special_symbol =
     (if special_symbol = CHR ''n'' then Some (CHR 0x0A)
      else if special_symbol = CHR ''t'' then Some (CHR 0x09)
      else if special_symbol = CHR ''r'' then Some (CHR 0x0D)
      else if special_symbol = CHR 0x22 then Some (CHR 0x22)
      else if special_symbol = CHR 0x5C then Some (CHR 0x5C)
      else if special_symbol = CHR 0x27 then Some (CHR 0x27)
      else None)"

function read_string :: "char \<Rightarrow> istream \<Rightarrow> string \<Rightarrow> lexer_exception + string \<times> istream" where
  "read_string begin_symbol input str =
     (case get input of
        (None, s) \<Rightarrow> Inr (str, s)
      | (Some symbol, s) \<Rightarrow>
          if symbol = begin_symbol then Inr (str, s)
          else if symbol = CHR 0x5C then
            (case get s of
               (None, s2) \<Rightarrow> Inl (LexerError ''The line was not closed'')
             | (Some special_symbol, s2) \<Rightarrow>
                 (case escaped special_symbol of
                    Some c \<Rightarrow> read_string begin_symbol s2 (str @ [c])
                  | None \<Rightarrow>
                      Inl (LexerError (''Unrecognized escape sequence '' @ [CHR 0x5C, special_symbol]))))
          else if symbol = CHR 0x0A \<or> symbol = CHR 0x0D then
            Inl (LexerError ''Unexpected end of line'')
          else read_string begin_symbol s (str @ [symbol]))"
  by pat_completeness auto
termination
  by (relation "measure (\<lambda>(b, s, w). length (chars s))")
     (auto dest!: get_Some_shorter [OF sym])

declare read_string.simps [simp del]

text \<open>
  \<open>RemovingSpacesBeforeTokens\<close>, and the loop of \<open>ExtractDent\<close> that counts the spaces
  in a \<open>uint16_t\<close>.
\<close>

function skip_spaces :: "istream \<Rightarrow> istream" where
  "skip_spaces input =
     (case peek input of
        (None, s) \<Rightarrow> s
      | (Some c, s) \<Rightarrow> if c = CHR '' '' then skip_spaces (snd (get s)) else s)"
  by pat_completeness auto
termination
  by (relation "measure (\<lambda>s. length (chars s))") (auto intro: peek_get_shorter [OF sym])

declare skip_spaces.simps [simp del]

function count_spaces :: "istream \<Rightarrow> nat \<Rightarrow> nat \<times> istream" where
  "count_spaces input count_space =
     (case peek input of
        (None, s) \<Rightarrow> (count_space, s)
      | (Some c, s) \<Rightarrow>
          if c = CHR '' '' then count_spaces (snd (get s)) ((count_space + 1) mod 65536)
          else (count_space, s))"
  by pat_completeness auto
termination
  by (relation "measure (\<lambda>(s, n). length (chars s))") (auto intro: peek_get_shorter [OF sym])

declare count_spaces.simps [simp del]

subsection \<open>The lexer\<close>

record Lexer =
  input_tokens :: istream
  tokens :: "Token list"
  current_dent :: nat

definition emplace_back :: "Token \<Rightarrow> Lexer \<Rightarrow> Lexer" where
  "emplace_back t lx = lx\<lparr>tokens := tokens lx @ [t]\<rparr>"

definition back_is :: "Token \<Rightarrow> Lexer \<Rightarrow> bool" where
  "back_is t lx = (tokens lx \<noteq> [] \<and> last (tokens lx) = t)"

definition IsEof :: "istream \<Rightarrow> bool \<times> istream" where
  "IsEof input = (case peek input of (None, s) \<Rightarrow> (True, s) | (Some c, s) \<Rightarrow> (False, s))"

definition RemovingSpacesBeforeTokens :: "Lexer \<Rightarrow> Lexer" where
  "RemovingSpacesBeforeTokens lx = lx\<lparr>input_tokens := skip_spaces (input_tokens lx)\<rparr>"

definition AddKeyword :: "string \<Rightarrow> Token option" where
  "AddKeyword word =
     (if word = ''class'' then Some Token_Class
      else if word = ''return'' then Some Token_Return
      else if word = ''if'' then Some Token_If
      else if word = ''else'' then Some Token_Else
      else if word = ''def'' then Some Token_Def
      else if word = ''print'' then Some Token_Print
      else if word = ''or'' then Some Token_Or
      else if word = ''None'' then Some Token_None
      else if word = ''and'' then Some Token_And
      else if word = ''not'' then Some Token_Not
      else if word = ''True'' then Some Token_True
      else if word = ''False'' then Some Token_False
      else None)"

definition ExtractKeywordOrId :: "Lexer \<Rightarrow> Lexer" where
  "ExtractKeywordOrId lx =
     (case IsEof (input_tokens lx) of
        (True, s) \<Rightarrow> lx\<lparr>input_tokens := s\<rparr>
      | (False, s) \<Rightarrow>
          (case peek s of
             (None, s1) \<Rightarrow> lx\<lparr>input_tokens := s1\<rparr>
           | (Some symbol, s1) \<Rightarrow>
               if \<not> isalpha symbol \<and> symbol \<noteq> CHR ''_'' then lx\<lparr>input_tokens := s1\<rparr>
               else
                 (case ReadWord s1 [] of
                    (parsed_word, s2) \<Rightarrow>
                      emplace_back
                        (case AddKeyword parsed_word of
                           Some keyword \<Rightarrow> keyword
                         | None \<Rightarrow> Token_Id parsed_word)
                        (lx\<lparr>input_tokens := s2\<rparr>))))"

text \<open>
  The chain of comparisons of \<open>ExtractOperatorEqOrSymbol\<close> peeks at the stream only
  when the first character is the one of its branch.
\<close>

definition ExtractOperatorEqOrSymbol :: "Lexer \<Rightarrow> Lexer" where
  "ExtractOperatorEqOrSymbol lx =
     (case IsEof (input_tokens lx) of
        (True, s) \<Rightarrow> lx\<lparr>input_tokens := s\<rparr>
      | (False, s) \<Rightarrow>
          (case peek s of
             (next_symbol, s1) \<Rightarrow>
               if next_symbol = Some (CHR ''#'') then lx\<lparr>input_tokens := s1\<rparr>
               else
                 (case get s1 of
                    (None, s2) \<Rightarrow> lx\<lparr>input_tokens := s2\<rparr>
                  | (Some first_symbol, s2) \<Rightarrow>
                      if \<not> ispunct first_symbol \<or> first_symbol = CHR 0x22 \<or> first_symbol = CHR 0x27
                      then lx\<lparr>input_tokens := putback first_symbol s2\<rparr>
                      else if first_symbol = CHR ''!'' \<or> first_symbol = CHR ''='' \<or>
                              first_symbol = CHR ''>'' \<or> first_symbol = CHR ''<'' then
                        (case peek s2 of
                           (second_symbol, s3) \<Rightarrow>
                             if second_symbol = Some (CHR ''='') then
                               emplace_back
                                 (if first_symbol = CHR ''!'' then Token_NotEq
                                  else if first_symbol = CHR ''='' then Token_Eq
                                  else if first_symbol = CHR ''>'' then Token_GreaterOrEq
                                  else Token_LessOrEq)
                                 (lx\<lparr>input_tokens := snd (get s3)\<rparr>)
                             else emplace_back (Token_Char first_symbol) (lx\<lparr>input_tokens := s3\<rparr>))
                      else emplace_back (Token_Char first_symbol) (lx\<lparr>input_tokens := s2\<rparr>))))"

definition ExtractIntValue :: "Lexer \<Rightarrow> lexer_exception + Lexer" where
  "ExtractIntValue lx =
     (case IsEof (input_tokens lx) of
        (True, s) \<Rightarrow> Inr (lx\<lparr>input_tokens := s\<rparr>)
      | (False, s) \<Rightarrow>
          (case get s of
             (None, s1) \<Rightarrow> Inr (lx\<lparr>input_tokens := s1\<rparr>)
           | (Some symbol, s1) \<Rightarrow>
               if isdigit symbol then
                 (case read_digits s1 [symbol] of
                    (parsed_num, s2) \<Rightarrow>
                      (case stoi parsed_num of
                         Inl e \<Rightarrow> Inl e
                       | Inr num \<Rightarrow> Inr (emplace_back (Token_Number num) (lx\<lparr>input_tokens := s2\<rparr>))))
               else Inr (lx\<lparr>input_tokens := putback symbol s1\<rparr>)))"

definition ExtractString :: "Lexer \<Rightarrow> lexer_exception + Lexer" where
  "ExtractString lx =
     (case IsEof (input_tokens lx) of
        (True, s) \<Rightarrow> Inr (lx\<lparr>input_tokens := s\<rparr>)
      | (False, s) \<Rightarrow>
          (case get s of
             (None, s1) \<Rightarrow> Inr (lx\<lparr>input_tokens := s1\<rparr>)
           | (Some begin_symbol, s1) \<Rightarrow>
               if begin_symbol \<noteq> CHR 0x27 \<and> begin_symbol \<noteq> CHR 0x22
               then Inr (lx\<lparr>input_tokens := putback begin_symbol s1\<rparr>)
               else
                 (case read_string begin_symbol s1 [] of
                    Inl e \<Rightarrow> Inl e
                  | Inr (str, s2) \<Rightarrow> Inr (emplace_back (Token_String str) (lx\<lparr>input_tokens := s2\<rparr>)))))"

definition ExtractComments :: "Lexer \<Rightarrow> Lexer" where
  "ExtractComments lx =
     (case peek (input_tokens lx) of
        (next_symbol, s) \<Rightarrow>
          if next_symbol \<noteq> Some (CHR ''#'') then lx\<lparr>input_tokens := s\<rparr>
          else
            (let lx1 = lx\<lparr>input_tokens := getline s\<rparr>
             in if tokens lx1 \<noteq> [] \<and> \<not> back_is Token_Newline lx1 \<and> \<not> back_is Token_Dedent lx1
                then emplace_back Token_Newline lx1 else lx1))"

definition ExtractNewLine :: "Lexer \<Rightarrow> Lexer" where
  "ExtractNewLine lx =
     (case IsEof (input_tokens lx) of
        (True, s) \<Rightarrow> lx\<lparr>input_tokens := s\<rparr>
      | (False, s) \<Rightarrow>
          (case peek s of
             (next_symbol, s1) \<Rightarrow>
               if next_symbol \<noteq> Some (CHR 0x0A) then lx\<lparr>input_tokens := s1\<rparr>
               else
                 (let lx1 = lx\<lparr>input_tokens := snd (get s1)\<rparr>
                  in if tokens lx1 \<noteq> [] \<and> \<not> back_is Token_Newline lx1
                     then emplace_back Token_Newline lx1 else lx1)))"

text \<open>
  The two loops of \<open>ExtractDent\<close>, run \<open>delta_dent\<close> and \<open>- delta_dent\<close> times;
  \<open>current_dent_\<close> is a \<open>uint16_t\<close>, and the \<open>assert\<close> fails when it is zero.
\<close>

fun indent_loop :: "nat \<Rightarrow> Lexer \<Rightarrow> Lexer" where
  "indent_loop 0 lx = lx"
| "indent_loop (Suc delta_dent) lx =
     indent_loop delta_dent
       ((emplace_back Token_Indent lx)\<lparr>current_dent := (current_dent lx + 1) mod 65536\<rparr>)"

fun dedent_loop :: "nat \<Rightarrow> Lexer \<Rightarrow> lexer_exception + Lexer" where
  "dedent_loop 0 lx = Inr lx"
| "dedent_loop (Suc delta_dent) lx =
     (if current_dent lx = 0 then Inl assertion_failed
      else dedent_loop delta_dent
             ((emplace_back Token_Dedent lx)\<lparr>current_dent := current_dent lx - 1\<rparr>))"

text \<open>The conversion of an \<open>int\<close> to \<open>int16_t\<close>.\<close>

definition to_int16 :: "int \<Rightarrow> int" where
  "to_int16 i = (i + 32768) mod 65536 - 32768"

definition ExtractDent :: "Lexer \<Rightarrow> lexer_exception + Lexer" where
  "ExtractDent lx =
     (if tokens lx \<noteq> [] \<and> \<not> back_is Token_Newline lx then Inr lx
      else
        (case peek (input_tokens lx) of
           (next_symbol, s) \<Rightarrow>
             if next_symbol = Some (CHR 0x0A) then Inr (lx\<lparr>input_tokens := s\<rparr>)
             else
               (case count_spaces s 0 of
                  (count_space, s1) \<Rightarrow>
                    if count_space mod 2 \<noteq> 0 then
                      Inl (LexerError
                        (''One of the indents contains an odd number of spaces. Num space = ''
                           @ to_string_nat count_space))
                    else
                      (let delta_dent = to_int16 (int (count_space div 2) - int (current_dent lx));
                           lx1 = lx\<lparr>input_tokens := s1\<rparr>
                       in if delta_dent > 0 then Inr (indent_loop (nat delta_dent) lx1)
                          else dedent_loop (nat (- delta_dent)) lx1))))"

text \<open>
  One round of the loop of \<open>ParseTokens\<close> (its steps before \<open>ExtractDent\<close>, then
  \<open>ExtractDent\<close>), and the loop. Nothing bounds the number of
  rounds: a round that meets a character no step consumes leaves the lexer as it
  found it. The loop runs on fuel, and \<open>None\<close> says that the fuel did not suffice.
\<close>

definition steps_before_ExtractDent :: "Lexer \<Rightarrow> lexer_exception + Lexer" where
  "steps_before_ExtractDent lx =
     (case ExtractIntValue (ExtractOperatorEqOrSymbol (ExtractKeywordOrId lx)) of
        Inl e \<Rightarrow> Inl e
      | Inr lx1 \<Rightarrow>
          (case ExtractString lx1 of
             Inl e \<Rightarrow> Inl e
           | Inr lx2 \<Rightarrow> Inr (ExtractNewLine (ExtractComments (RemovingSpacesBeforeTokens lx2)))))"

definition ParseTokens_round :: "Lexer \<Rightarrow> lexer_exception + Lexer" where
  "ParseTokens_round lx =
     (case steps_before_ExtractDent lx of
        Inl e \<Rightarrow> Inl e
      | Inr lx1 \<Rightarrow> ExtractDent lx1)"

fun ParseTokens_loop :: "nat \<Rightarrow> Lexer \<Rightarrow> (lexer_exception + Lexer) option" where
  "ParseTokens_loop fuel lx =
     (if failbit (input_tokens lx) then Some (Inr lx)
      else if fuel = 0 then None
      else (case ParseTokens_round lx of
              Inl e \<Rightarrow> Some (Inl e)
            | Inr lx1 \<Rightarrow> ParseTokens_loop (fuel - 1) lx1))"

declare ParseTokens_loop.simps [simp del]

definition ParseTokens :: "nat \<Rightarrow> Lexer \<Rightarrow> (lexer_exception + Lexer) option" where
  "ParseTokens fuel lx =
     (case ParseTokens_loop fuel (RemovingSpacesBeforeTokens lx) of
        None \<Rightarrow> None
      | Some (Inl e) \<Rightarrow> Some (Inl e)
      | Some (Inr lx1) \<Rightarrow>
          Some (Inr (emplace_back Token_Eof
            (if tokens lx1 \<noteq> [] \<and> \<not> back_is Token_Newline lx1 \<and> \<not> back_is Token_Dedent lx1
             then emplace_back Token_Newline lx1 else lx1))))"

text \<open>
  The lexer before \<open>ParseTokens\<close> runs, on a stream that holds the given text, and the
  tokens the constructor \<open>Lexer(input)\<close> leaves in \<open>tokens_\<close>.
\<close>

definition initial_Lexer :: "string \<Rightarrow> Lexer" where
  "initial_Lexer text =
     \<lparr>input_tokens = \<lparr>chars = text, eofbit = False, failbit = False\<rparr>,
      tokens = [], current_dent = 0\<rparr>"

definition Lexer_of :: "nat \<Rightarrow> string \<Rightarrow> (lexer_exception + Token list) option" where
  "Lexer_of fuel text =
     (case ParseTokens fuel (initial_Lexer text) of
        None \<Rightarrow> None
      | Some (Inl e) \<Rightarrow> Some (Inl e)
      | Some (Inr lx) \<Rightarrow> Some (Inr (tokens lx)))"

subsection \<open>The indent level of a token list\<close>

text \<open>
  The number of \<open>Indent\<close> tokens less the number of \<open>Dedent\<close> tokens; the invariant of
  the lexer that ties it to \<open>current_dent_\<close>; and a step of the lexer that leaves
  \<open>current_dent_\<close> alone and adds at most one token, neither \<open>Indent\<close> nor \<open>Dedent\<close>.
\<close>

definition dent_level :: "Token list \<Rightarrow> int" where
  "dent_level ts = int (count_list ts Token_Indent) - int (count_list ts Token_Dedent)"

definition dent_inv :: "Lexer \<Rightarrow> bool" where
  "dent_inv lx =
     ((\<forall>n. 0 \<le> dent_level (take n (tokens lx))) \<and>
      dent_level (tokens lx) = int (current_dent lx) \<and> current_dent lx < 32768)"

definition plain_step :: "Lexer \<Rightarrow> Lexer \<Rightarrow> bool" where
  "plain_step lx lx' =
     (current_dent lx' = current_dent lx \<and>
      (tokens lx' = tokens lx \<or>
       (\<exists>t. tokens lx' = tokens lx @ [t] \<and> t \<noteq> Token_Indent \<and> t \<noteq> Token_Dedent)))"


section \<open>Sample states and programs\<close>

text \<open>
  A world in which no instance has a field and nothing is printed, with the objects
  \<open>0\<close>, \<open>1\<close>, ... on the heap, each with the number of owners the list gives. The
  closures below go with the worlds that count their holders: \<open>closure_xvw\<close>,
  \<open>closure_yvw\<close>, \<open>closure_ab\<close> and \<open>closure_x1\<close> with \<open>world_with [1, 1]\<close>, \<open>closure_y5\<close>
  with \<open>world_with [1]\<close>.
\<close>

definition world_with :: "nat list \<Rightarrow> world" where
  "world_with counts =
     \<lparr>Fields = \<lambda>a. [], output_stream = [],
      use_count = (\<lambda>p. if p < length counts then counts ! p else 0),
      next_object = length counts\<rparr>"

text \<open>The world before a program runs.\<close>

definition empty_world :: world where
  "empty_world = world_with []"

definition class_X :: Class where
  "class_X = Class ''X'' [] None"

text \<open>
  \<open>x\<close> is an instance of \<open>X\<close>, \<open>v\<close> is 1 and \<open>w\<close> is 2; the closure is the one owner of
  the two numbers.
\<close>

definition closure_xvw :: Closure where
  "closure_xvw =
     [(''x'', Share (ClassInstance class_X 0)), (''v'', Own 0 (Number 1)), (''w'', Own 1 (Number 2))]"

text \<open>
  \<^verbatim>\<open>class V:\<close>\<^verbatim>\<open>  def set(self, v, w):\<close>\<^verbatim>\<open>    self.v = w\<close>\<^verbatim>\<open>    return v\<close>
\<close>

definition class_V :: Class where
  "class_V = Class ''V''
     [Method ''set'' [''v'', ''w'']
        (MethodBody (Compound [FieldAssignment [''self''] ''v'' (VariableValue [''w'']),
                               Return (VariableValue [''v''])]))] None"

definition closure_yvw :: Closure where
  "closure_yvw =
     [(''y'', Share (ClassInstance class_V 0)), (''v'', Own 0 (Number 1)), (''w'', Own 1 (Number 2))]"

definition closure_y5 :: Closure where
  "closure_y5 = [(''y'', Own 0 (Number 5))]"

text \<open>\<open>a\<close> is 1 and \<open>b\<close> is 2; \<open>a < b\<close> and \<open>b < a\<close>.\<close>

definition closure_ab :: Closure where
  "closure_ab = [(''a'', Own 0 (Number 1)), (''b'', Own 1 (Number 2))]"

definition a_less_b :: Statement where
  "a_less_b = Comparison Less_cmp (VariableValue [''a'']) (VariableValue [''b''])"

definition b_less_a :: Statement where
  "b_less_a = Comparison Less_cmp (VariableValue [''b'']) (VariableValue [''a''])"

definition closure_x1 :: Closure where
  "closure_x1 = [(''x'', Own 0 (Number 1)), (''t'', Own 1 (Bool True))]"



text \<open>\<^verbatim>\<open>class E:\<close>\<^verbatim>\<open>  def __eq__(self, other):\<close>\<^verbatim>\<open>    return other\<close>\<close>

definition class_E :: Class where
  "class_E = Class ''E''
     [Method ''__eq__'' [''other''] (MethodBody (Return (VariableValue [''other''])))] None"

text \<open>
  \<^verbatim>\<open>class S:\<close>\<^verbatim>\<open>  def __str__(self):\<close>\<^verbatim>\<open>    print None\<close>\<^verbatim>\<open>    return str(None)\<close>
\<close>

definition class_S :: Class where
  "class_S = Class ''S''
     [Method ''__str__'' []
        (MethodBody (Compound [Print [None_stmt], Return (Stringify None_stmt)]))] None"

definition closure_s :: Closure where
  "closure_s = [(''s'', Share (ClassInstance class_S 0))]"

text \<open>Two holders that refer to two numbers, two strings or two booleans.\<close>

definition same_primitive_kind :: "ObjectHolder \<Rightarrow> ObjectHolder \<Rightarrow> bool" where
  "same_primitive_kind a b =
     (case (Get a, Get b) of
        (Some (Number x), Some (Number y)) \<Rightarrow> True
      | (Some (String x), Some (String y)) \<Rightarrow> True
      | (Some (Bool x), Some (Bool y)) \<Rightarrow> True
      | _ \<Rightarrow> False)"

text \<open>
  The lookup of a dotted chain as the specification words it: the first identifier in
  the closure, each later one in the fields of the instance the one before it resolved
  to; nothing when an identifier is unbound where it is looked up, or an identifier
  before the last is bound to something that is not an instance.
\<close>

fun resolve_chain :: "string list \<Rightarrow> Closure \<Rightarrow> world \<Rightarrow> ObjectHolder option" where
  "resolve_chain [] c w = None"
| "resolve_chain [ident] c w = map_of c ident"
| "resolve_chain (ident # ids) c w =
     (case map_of c ident of
        None \<Rightarrow> None
      | Some h \<Rightarrow>
          (case TryAs_ClassInstance h of
             None \<Rightarrow> None
           | Some (cls, a) \<Rightarrow> resolve_chain ids (Fields w a) w))"

text \<open>The definitions that \<open>simp\<close> unfolds to run a statement in a given state.\<close>

lemmas run_defs = VariableValue_Execute_def HasMethod_def table_methods_def Get_def
  TryAs_Bool_def TryAs_Number_def TryAs_String_def TryAs_Class_def TryAs_ClassInstance_def
  copy_holder_def destroy_holder_def destroy_holders_def destroy_closure_def make_Own_def
  expired_def move_assign_def copy_assign_def index_field_def set_field_def write_output_def
  int_result_def world_with_def empty_world_def fun_eq_iff less_Suc_eq

section \<open>Field assignment (C1)\<close>

text \<open>
  When \<open>object\<close> resolves to an instance of a \<open>NewInstance\<close> node and \<open>rhs\<close> evaluates to a
  value,
  \<open>FieldAssignment(object, field, rhs)\<close> returns that value and has it under \<open>field\<close> in
  the field table of the instance. The other fields of the instance, the other
  instances, the output and the bindings of the closure under other names are as the
  evaluation of \<open>rhs\<close> left them.
\<close>

lemma map_of_move_assign:
  "move_assign name h c w = (c', w') \<Longrightarrow> map_of c' = (map_of c)(name \<mapsto> h)"
  by (auto simp: move_assign_def update_conv')

lemma map_of_copy_assign:
  "copy_assign name h c w = (c', w') \<Longrightarrow> map_of c' = (map_of c)(name \<mapsto> h)"
  by (auto simp: copy_assign_def dest: map_of_move_assign)

lemma state_of_copy_holder [simp]:
  "Fields (copy_holder h w) = Fields w" "output_stream (copy_holder h w) = output_stream w"
  by (simp_all add: copy_holder_def split: ObjectHolder.splits)

lemma state_of_destroy_holder [simp]:
  "Fields (destroy_holder h w) = Fields w" "output_stream (destroy_holder h w) = output_stream w"
  by (simp_all add: destroy_holder_def split: ObjectHolder.splits)

lemma state_of_move_assign:
  "move_assign name h c w = (c', w') \<Longrightarrow> Fields w' = Fields w \<and> output_stream w' = output_stream w"
  by (auto simp: move_assign_def split: option.splits)

lemma state_of_copy_assign:
  "copy_assign name h c w = (c', w') \<Longrightarrow> Fields w' = Fields w \<and> output_stream w' = output_stream w"
  by (auto simp: copy_assign_def dest: state_of_move_assign)

lemma Fields_of_set_field:
  "Fields (set_field a name h w) = (Fields w)(a := AList.update name h (Fields w a))"
  "output_stream (set_field a name h w) = output_stream w"
  by (auto simp: set_field_def move_assign_def split: option.splits)

lemma FieldAssignment_stores:
  assumes "VariableValue_Execute object c w = (Inr obj, w0)"
    and "obj = Share (ClassInstance cls a)"
    and "Execute n r_value c (index_field a field_name w0) = (Inr v, c1, w1)"
  shows "\<exists>c' w'. Execute n (FieldAssignment object field_name r_value) c w = (Inr v, c', w') \<and>
           map_of (Fields w' a) field_name = Some v \<and>
           (\<forall>k. k \<noteq> field_name \<longrightarrow> map_of (Fields w' a) k = map_of (Fields w1 a) k) \<and>
           (\<forall>a'. a' \<noteq> a \<longrightarrow> Fields w' a' = Fields w1 a') \<and>
           output_stream w' = output_stream w1 \<and>
           (\<forall>k. k \<noteq> field_name \<longrightarrow> map_of c' k = map_of c1 k)"
proof -
  obtain c2 w2 where ca: "copy_assign field_name v c1 (set_field a field_name v w1) = (c2, w2)"
    by force
  from assms have "TryAs_ClassInstance obj = Some (cls, a)"
    by (simp add: TryAs_ClassInstance_def Get_def)
  with assms ca have
    "Execute n (FieldAssignment object field_name r_value) c w
       = (Inr v, c2, destroy_holder obj (copy_holder v w2))"
    by simp
  moreover from state_of_copy_assign [OF ca]
  have "Fields w2 = Fields (set_field a field_name v w1)"
    and "output_stream w2 = output_stream w1"
    by (simp_all add: Fields_of_set_field)
  moreover from map_of_copy_assign [OF ca] have "map_of c2 = (map_of c1)(field_name \<mapsto> v)" .
  ultimately show ?thesis
    by (simp add: Fields_of_set_field update_conv')
qed

text \<open>
  C1 says that \<open>FieldAssignment\<close> never creates or overwrites a binding named \<open>field\<close> in
  the closure it executes in. The last statement but one of \<open>FieldAssignment::Execute\<close>,
  \<open>closure[field_name_] = field\<close>, does. In a closure where \<open>v\<close> is 1 and \<open>w\<close> is 2,
  evaluating the object \<open>x\<close> and the right-hand side \<open>w\<close> leaves the closure as it is, and
  \<open>x.v = w\<close> stores 2 in the field \<open>v\<close> of \<open>x\<close>, returns it, and leaves \<open>v\<close> bound to 2 in
  the closure; the number 1, which only \<open>v\<close> owned, is deleted.
\<close>

theorem FieldAssignment_overwrites_binding:
  "map_of closure_xvw ''v'' = Some (Own 0 (Number 1)) \<and>
   fst (snd (Execute 0 (VariableValue [''x'']) closure_xvw (world_with [1, 1]))) = closure_xvw \<and>
   fst (snd (Execute 0 (VariableValue [''w'']) closure_xvw
               (index_field 0 ''v'' (world_with [1, 1])))) = closure_xvw \<and>
   (case Execute 0 (FieldAssignment [''x''] ''v'' (VariableValue [''w''])) closure_xvw
           (world_with [1, 1]) of
      (r, c, w) \<Rightarrow>
        r = Inr (Own 1 (Number 2)) \<and>
        Fields w 0 = [(''v'', Own 1 (Number 2))] \<and>
        c = [(''x'', Share (ClassInstance class_X 0)), (''v'', Own 1 (Number 2)),
             (''w'', Own 1 (Number 2))] \<and>
        use_count w 0 = 0 \<and> use_count w 1 = 4)"
  by (simp add: run_defs closure_xvw_def)

text \<open>
  So a method loses its parameter \<open>v\<close> when it assigns to the field \<open>v\<close>: with \<open>v\<close> 1 and
  \<open>w\<close> 2, \<open>y.set(v, w)\<close> returns 2.
\<close>

lemma parameter_lost_by_FieldAssignment:
  "fst (Execute 1 (MethodCall (VariableValue [''y'']) ''set''
                     [VariableValue [''v''], VariableValue [''w'']])
          closure_yvw (world_with [1, 1]))
     = Inr (Own 1 (Number 2))"
  by (simp add: run_defs closure_yvw_def class_V_def)

section \<open>Dotted identifiers (C4)\<close>

text \<open>
  When the chain resolves as the specification says, \<open>VariableValue::Execute\<close> returns
  the holder of the last identifier; a chain of one unbound identifier raises.
\<close>

lemma VariableValue_loop_resolved:
  "resolve_chain ids c w = Some h \<Longrightarrow> VariableValue_loop ids c w = Inr h"
proof (induction ids arbitrary: c)
  case Nil
  then show ?case by simp
next
  case (Cons ident ids)
  show ?case
  proof (cases ids)
    case Nil
    with Cons.prems show ?thesis by simp
  next
    case (Cons v va)
    with Cons.prems obtain h' cls a where
      b: "map_of c ident = Some h'" and i: "TryAs_ClassInstance h' = Some (cls, a)" and
      r: "resolve_chain ids (Fields w a) w = Some h"
      by (auto split: option.splits)
    from Cons.IH [OF r] have "VariableValue_loop ids (Fields w a) w = Inr h" .
    with b i Cons show ?thesis by (simp del: resolve_chain.simps)
  qed
qed

lemma VariableValue_resolved:
  "resolve_chain ids c w = Some h \<Longrightarrow>
     Execute n (VariableValue ids) c w = (Inr h, c, copy_holder h w)"
  by (simp add: VariableValue_Execute_def VariableValue_loop_resolved)

lemma VariableValue_last_unbound:
  "Execute n (VariableValue [ident]) c w =
     (case map_of c ident of
        None \<Rightarrow> (Inl VariableValue_error, c, w)
      | Some h \<Rightarrow> (Inr h, c, copy_holder h w))"
  by (simp add: VariableValue_Execute_def split: option.splits)

text \<open>
  C4 says that \<open>VariableValue::Execute\<close> raises a runtime error whenever a segment of the
  chain is unbound where it is looked up. The loop has no branch for an unbound segment
  before the last: it goes on to the next segment in the same closure. With \<open>x\<close> unbound
  and \<open>y\<close> bound to 5, the chain \<open>x.y\<close> does not resolve, and the code returns 5 (the
  number has one more owner, the holder returned).
\<close>

theorem VariableValue_skips_unbound_segment:
  "resolve_chain [''x'', ''y''] closure_y5 (world_with [1]) = None \<and>
   map_of closure_y5 ''x'' = None \<and>
   Execute 0 (VariableValue [''x'', ''y'']) closure_y5 (world_with [1])
     = (Inr (Own 0 (Number 5)), closure_y5, world_with [2])"
  by (simp add: run_defs closure_y5_def)

section \<open>Equality and order (C5, C6)\<close>

text \<open>
  What \<open>Equal\<close> does by the kinds of its arguments: two empty holders are equal; two
  numbers, two strings and two booleans are compared by value; an instance whose class
  resolves \<open>__eq__\<close> with one parameter is asked, with the argument in a vector built
  from a braced list (two copies of the holder, both destroyed after the call), and the
  answer is read through \<open>TryAs<Bool>()\<close>; anything else is a runtime error.
\<close>

lemma Equal_both_empty:
  "Get a = None \<Longrightarrow> Get b = None \<Longrightarrow> Equal n a b w = (Inr True, w)"
  by simp

lemma Equal_same_primitive_kind:
  "Get a = Some (Number x) \<Longrightarrow> Get b = Some (Number y) \<Longrightarrow> Equal n a b w = (Inr (x = y), w)"
  "Get a = Some (String s) \<Longrightarrow> Get b = Some (String t) \<Longrightarrow> Equal n a b w = (Inr (s = t), w)"
  "Get a = Some (Bool p) \<Longrightarrow> Get b = Some (Bool q) \<Longrightarrow> Equal n a b w = (Inr (p = q), w)"
  by (simp_all add: TryAs_Bool_def TryAs_Number_def TryAs_String_def)

lemma Equal_eq_method:
  assumes "Get a = Some (ClassInstance cls addr)" and "HasMethod cls ''__eq__'' 1"
  shows "Equal n a b w =
           (case Call n cls addr ''__eq__'' [b] (copy_holder b (copy_holder b w)) of
              (Inl e, w1) \<Rightarrow> (Inl e, destroy_holder b (destroy_holder b w1))
            | (Inr r, w1) \<Rightarrow>
                (case Get r of
                   Some (Bool v) \<Rightarrow>
                     (Inr v, destroy_holder b (destroy_holder b (destroy_holder r w1)))
                 | _ \<Rightarrow> (Inl undefined_behaviour, w1)))"
  using assms
  by (simp add: TryAs_Bool_def TryAs_Number_def TryAs_String_def TryAs_ClassInstance_def
      split: prod.splits sum.splits option.splits Object.splits)

lemma Equal_no_eq_method:
  assumes "Get a \<noteq> None \<or> Get b \<noteq> None" and "\<not> same_primitive_kind a b"
    and "\<forall>cls addr. Get a = Some (ClassInstance cls addr) \<longrightarrow> \<not> HasMethod cls ''__eq__'' 1"
  shows "Equal n a b w = (Inl (runtime_error ''Cannot compare objects for equality''), w)"
proof (cases "Get a")
  case None
  with assms(1) have "Get b \<noteq> None" by simp
  with None show ?thesis
    by (simp add: TryAs_Bool_def TryAs_Number_def TryAs_String_def TryAs_ClassInstance_def)
next
  case (Some obj)
  with assms(2,3) show ?thesis
    by (cases obj; cases "Get b")
       (auto simp: same_primitive_kind_def TryAs_Bool_def TryAs_Number_def TryAs_String_def
          TryAs_ClassInstance_def split: Object.splits)
qed

text \<open>
  C5 says that \<open>Equal\<close> returns the result of \<open>__eq__\<close> coerced to bool. The code reads the
  result through \<open>TryAs<Bool>()\<close> with no test for a null pointer: when \<open>__eq__\<close> returns
  the number 1, which is true as a condition (\<open>IsTrue\<close>), \<open>Equal\<close> dereferences a null
  pointer.
\<close>

theorem Equal_eq_returns_Number:
  "HasMethod class_E ''__eq__'' 1 \<and>
   Call 1 class_E 0 ''__eq__'' [Own 0 (Number 1)] (world_with [1])
     = (Inr (Own 0 (Number 1)), world_with [2]) \<and>
   IsTrue (Own 0 (Number 1)) \<and>
   Equal 1 (Share (ClassInstance class_E 0)) (Own 0 (Number 1)) (world_with [1])
     = (Inl undefined_behaviour, world_with [4])"
  by (simp add: run_defs class_E_def IsTrue_def)

lemma same_primitive_kind_cases:
  assumes "same_primitive_kind a b"
  obtains (Numbers) x y where "Get a = Some (Number x)" "Get b = Some (Number y)"
        | (Strings) x y where "Get a = Some (String x)" "Get b = Some (String y)"
        | (Bools) x y where "Get a = Some (Bool x)" "Get b = Some (Bool y)"
  using assms
  by (auto simp: same_primitive_kind_def split: option.splits Object.splits)

text \<open>
  C6: for holders \<open>a\<close> and \<open>b\<close> of two numbers, two strings or two booleans, \<open>Equal(a, b)\<close>,
  \<open>Less(a, b)\<close> and \<open>Less(b, a)\<close> return, leaving the context as it is, and \<open>Equal(a, b)\<close>
  is true if and only if \<open>Less(a, b)\<close> and \<open>Less(b, a)\<close> are both false.
\<close>

theorem Equal_iff_neither_Less:
  assumes "same_primitive_kind a b"
  shows "\<exists>e l1 l2. Equal n a b w = (Inr e, w) \<and> Less n a b w = (Inr l1, w) \<and>
           Less n b a w = (Inr l2, w) \<and> (e \<longleftrightarrow> \<not> l1 \<and> \<not> l2)"
  using assms
proof (cases rule: same_primitive_kind_cases)
  case (Numbers x y)
  then show ?thesis
    by (auto simp: TryAs_Bool_def TryAs_Number_def TryAs_String_def)
next
  case (Strings x y)
  then show ?thesis
    by (auto simp: TryAs_Bool_def TryAs_Number_def TryAs_String_def)
next
  case (Bools x y)
  then show ?thesis
    by (auto simp: TryAs_Bool_def TryAs_Number_def TryAs_String_def)
qed

theorem Equal_iff_neither_Less_witness:
  "same_primitive_kind (Own 0 (String ''ab'')) (Share (String ''abc'')) \<and>
   Equal 0 (Own 0 (String ''ab'')) (Share (String ''abc'')) (world_with [1])
     = (Inr False, world_with [1]) \<and>
   Less 0 (Own 0 (String ''ab'')) (Share (String ''abc'')) (world_with [1])
     = (Inr True, world_with [1]) \<and>
   Less 0 (Share (String ''abc'')) (Own 0 (String ''ab'')) (world_with [1])
     = (Inr False, world_with [1])"
proof -
  let ?w = "world_with [1]"
  have k: "same_primitive_kind (Own 0 (String ''ab'')) (Share (String ''abc''))"
    by (simp add: same_primitive_kind_def Get_def)
  have l: "Less 0 (Own 0 (String ''ab'')) (Share (String ''abc'')) ?w = (Inr True, ?w)"
    by (simp add: TryAs_Bool_def TryAs_Number_def TryAs_String_def Get_def)
  from Equal_iff_neither_Less [OF k, of 0 ?w]
  obtain e l1 l2 where
    E: "Equal 0 (Own 0 (String ''ab'')) (Share (String ''abc'')) ?w = (Inr e, ?w)" and
    L1: "Less 0 (Own 0 (String ''ab'')) (Share (String ''abc'')) ?w = (Inr l1, ?w)" and
    L2: "Less 0 (Share (String ''abc'')) (Own 0 (String ''ab'')) ?w = (Inr l2, ?w)" and
    iff: "e \<longleftrightarrow> \<not> l1 \<and> \<not> l2"
    by blast
  from L1 l have "l1" by (simp del: Less.simps)
  with iff have "\<not> e" by simp
  have "Less 0 (Share (String ''abc'')) (Own 0 (String ''ab'')) ?w = (Inr False, ?w)"
    by (simp add: TryAs_Bool_def TryAs_Number_def TryAs_String_def Get_def)
  with k E l \<open>\<not> e\<close> show ?thesis by (simp del: Less.simps Equal.simps)
qed

section \<open>Return and MethodBody (C7)\<close>



text \<open>
  The thrown holder, and a runtime error, pass the statements between the place where
  they are raised and the method body: what follows them in a \<open>Compound\<close> or after an
  \<open>IfElse\<close> is not executed. The condition of the \<open>IfElse\<close> is destroyed on the way.
\<close>

lemma Return_unwinds_nested_statements:
  assumes "Execute n condition c w = (Inr cond, c1, w1)" and "TryAs_Bool cond = Some True"
    and "Execute n expr c1 w1 = (Inr v, c2, w2)"
  shows "Execute n (MethodBody (Compound
            (IfElse condition (Compound (Return expr # after_return)) else_body # after_if))) c w
           = (Inr v, c2, destroy_holder cond w2)"
  using assms by simp

lemma runtime_error_leaves_nested_statements:
  assumes "Execute n condition c w = (Inr cond, c1, w1)" and "TryAs_Bool cond = Some True"
    and "Execute n stmt c1 w1 = (Inl (runtime_error msg), c2, w2)"
  shows "Execute n (MethodBody (Compound
            (IfElse condition (Compound (stmt # after_stmt)) else_body # after_if))) c w
           = (Inl (runtime_error msg), c2, destroy_holder cond w2)"
  using assms by simp

text \<open>
  An exception that leaves the sub-statement a statement evaluates first leaves the
  statement, whatever the statement is; only \<open>MethodBody\<close> catches, and only a thrown
  holder.
\<close>

lemma abrupt_exit_propagates:
  assumes "Execute n s c w = (Inl e, c1, w1)"
  shows "Execute n (Assignment x s) c w = (Inl e, c1, w1)"
    and "Execute n (Print (s # ss)) c w = (Inl e, c1, w1)"
    and "Execute n (MethodCall s m args) c w = (Inl e, c1, w1)"
    and "Execute n (Stringify s) c w = (Inl e, c1, w1)"
    and "Execute n (Add s r) c w = (Inl e, c1, w1)"
    and "Execute n (Sub s r) c w = (Inl e, c1, w1)"
    and "Execute n (Mult s r) c w = (Inl e, c1, w1)"
    and "Execute n (Div s r) c w = (Inl e, c1, w1)"
    and "Execute n (Or s r) c w = (Inl e, c1, w1)"
    and "Execute n (And s r) c w = (Inl e, c1, w1)"
    and "Execute n (Not_stmt s) c w = (Inl e, c1, w1)"
    and "Execute n (Compound (s # ss)) c w = (Inl e, c1, w1)"
    and "Execute n (Return s) c w = (Inl e, c1, w1)"
    and "Execute n (IfElse s t u) c w = (Inl e, c1, w1)"
    and "Execute n (Comparison cmp s r) c w = (Inl e, c1, w1)"
    and "(\<forall>v. e \<noteq> thrown_ObjectHolder v) \<Longrightarrow> Execute n (MethodBody s) c w = (Inl e, c1, w1)"
  using assms by (simp_all split: abrupt.splits)

section \<open>Or and And (C8)\<close>

text \<open>
  \<open>Or::Execute\<close> and \<open>And::Execute\<close> keep of each operand the pointer that \<open>TryAs<Bool>()\<close>
  returns; the holder that the operand returned is destroyed before the pointer is
  read. As long as the \<open>Bool\<close> has another owner, or the operand did not yield a \<open>Bool\<close>,
  they work as the specification describes them: \<open>Or\<close> returns a new true \<open>Bool\<close> without evaluating the right
  operand when the left operand yields a true \<open>Bool\<close>, and otherwise evaluates the right
  operand and returns whether that yields a true \<open>Bool\<close>; \<open>And\<close> returns a new false \<open>Bool\<close>
  without evaluating the right operand when the left operand does not yield a true
  \<open>Bool\<close>, and otherwise evaluates the right operand and returns whether that yields a
  true \<open>Bool\<close>. A value that is not a \<open>Bool\<close> counts as false, whatever \<open>IsTrue\<close> says of it.
\<close>

lemma Or_And_of_live_operands:
  "(Execute n lhs c w = (Inr l, c1, w1) \<and> TryAs_Bool l = Some True \<and>
    \<not> expired l (destroy_holder l w1) \<longrightarrow>
      Execute n (Or lhs rhs) c w =
        (case make_Own (Bool True) (destroy_holder l w1) of (h, w2) \<Rightarrow> (Inr h, c1, w2))) \<and>
   (Execute n lhs c w = (Inr l, c1, w1) \<and> TryAs_Bool l \<noteq> Some True \<and>
    (TryAs_Bool l = None \<or> \<not> expired l (destroy_holder l w1)) \<and>
    Execute n rhs c1 (destroy_holder l w1) = (Inr r, c2, w2) \<and>
    (TryAs_Bool r = None \<or> \<not> expired r (destroy_holder r w2)) \<longrightarrow>
      Execute n (Or lhs rhs) c w =
        (case make_Own (Bool (TryAs_Bool r = Some True)) (destroy_holder r w2) of
           (h, w3) \<Rightarrow> (Inr h, c2, w3))) \<and>
   (Execute n lhs c w = (Inr l, c1, w1) \<and> TryAs_Bool l \<noteq> Some True \<and>
    (TryAs_Bool l = None \<or> \<not> expired l (destroy_holder l w1)) \<longrightarrow>
      Execute n (And lhs rhs) c w =
        (case make_Own (Bool False) (destroy_holder l w1) of (h, w2) \<Rightarrow> (Inr h, c1, w2))) \<and>
   (Execute n lhs c w = (Inr l, c1, w1) \<and> TryAs_Bool l = Some True \<and>
    \<not> expired l (destroy_holder l w1) \<and>
    Execute n rhs c1 (destroy_holder l w1) = (Inr r, c2, w2) \<and>
    (TryAs_Bool r = None \<or> \<not> expired r (destroy_holder r w2)) \<longrightarrow>
      Execute n (And lhs rhs) c w =
        (case make_Own (Bool (TryAs_Bool r = Some True)) (destroy_holder r w2) of
           (h, w3) \<Rightarrow> (Inr h, c2, w3))) \<and>
   (fst (Execute n (Or lhs rhs) c w) = Inr v \<or> fst (Execute n (And lhs rhs) c w) = Inr v \<longrightarrow>
      (\<exists>p b. v = Own p (Bool b)))"
  by (auto simp: make_Own_def split: prod.splits sum.splits if_splits)

lemma Or_And_of_variables:
  "Execute 1 (Or (VariableValue [''t'']) (VariableValue [])) closure_x1 (world_with [1, 1])
     = (Inr (Own 2 (Bool True)), closure_x1, world_with [1, 1, 1]) \<and>
   Execute 1 (Or (VariableValue [''x'']) (VariableValue [''x''])) closure_x1 (world_with [1, 1])
     = (Inr (Own 2 (Bool False)), closure_x1, world_with [1, 1, 1]) \<and>
   Execute 1 (And (VariableValue [''x'']) (VariableValue [])) closure_x1 (world_with [1, 1])
     = (Inr (Own 2 (Bool False)), closure_x1, world_with [1, 1, 1]) \<and>
   Execute 1 (And (VariableValue [''t'']) (VariableValue [''t''])) closure_x1 (world_with [1, 1])
     = (Inr (Own 2 (Bool True)), closure_x1, world_with [1, 1, 1])"
  by (auto simp add: run_defs closure_x1_def)

text \<open>
  C8 says that \<open>Or\<close> and \<open>And\<close> always return an owned \<open>Bool\<close>, true for \<open>Or\<close> when the
  left operand yields a true \<open>Bool\<close>. When the operand is a comparison, the holder it
  returns is the one owner of its \<open>Bool\<close>: the \<open>Bool\<close> is deleted with the holder, and
  \<open>lhs_ptr->GetValue()\<close> reads a deleted object. With \<open>a\<close> 1 and \<open>b\<close> 2, \<open>a < b\<close> yields a
  true \<open>Bool\<close>, and neither \<open>a < b or b < a\<close> nor \<open>a < b and b < a\<close> returns a \<open>Bool\<close>.
\<close>

theorem Or_And_read_deleted_Bool:
  "Execute 0 a_less_b closure_ab (world_with [1, 1])
     = (Inr (Own 2 (Bool True)), closure_ab, world_with [1, 1, 1]) \<and>
   Execute 0 (Or a_less_b b_less_a) closure_ab (world_with [1, 1])
     = (Inl undefined_behaviour, closure_ab, world_with [1, 1, 0]) \<and>
   Execute 0 (And a_less_b b_less_a) closure_ab (world_with [1, 1])
     = (Inl undefined_behaviour, closure_ab, world_with [1, 1, 0])"
  by (auto simp add: run_defs closure_ab_def a_less_b_def b_less_a_def)

section \<open>Stringify (C9)\<close>

text \<open>
  When the argument evaluates to an empty holder, or to an object that is not an
  instance and that still has an owner once the holder that the argument returned is
  destroyed, \<open>Stringify\<close> returns a new \<open>String\<close> and leaves the closure and the output
  as the evaluation of the argument left them. When that holder was the one owner, as
  the holder that \<open>str(None)\<close> returns is, \<open>obj_ptr->Print\<close> reads a deleted object.
\<close>

lemma Object_Print_not_instance:
  assumes "\<forall>cls a. obj \<noteq> ClassInstance cls a"
  shows "\<exists>s. Object_Print n obj os w = (Inr s, w)"
  using assms by (cases obj) simp_all

lemma Stringify_primitive:
  assumes "Execute n argument c w = (Inr oh, c1, w1)"
    and "\<forall>cls a. Get oh \<noteq> Some (ClassInstance cls a)"
    and "\<not> expired oh (destroy_holder oh w1)"
  shows "\<exists>s. Execute n (Stringify argument) c w =
           (case make_Own (String s) (destroy_holder oh w1) of (h, w2) \<Rightarrow> (Inr h, c1, w2))"
proof (cases "Get oh")
  case None
  then have "oh = NoneHolder" by (cases oh) (simp_all add: Get_def)
  with assms(1) show ?thesis
    by (intro exI [of _ "''None''"]) (simp add: Get_def destroy_holder_def)
next
  case (Some obj)
  with assms(2) have "\<forall>cls a. obj \<noteq> ClassInstance cls a" by simp
  from Object_Print_not_instance [OF this, of n "[]" "destroy_holder oh w1"]
  obtain s where "Object_Print n obj [] (destroy_holder oh w1) = (Inr s, destroy_holder oh w1)"
    by blast
  with Some assms(1,3) show ?thesis by auto
qed

lemma Stringify_of_temporary:
  "Execute 0 (Stringify None_stmt) [] empty_world
     = (Inr (Own 0 (String ''None'')), [], world_with [1]) \<and>
   Execute 0 (Stringify (Stringify None_stmt)) [] empty_world
     = (Inl undefined_behaviour, [], world_with [0])"
  by (auto simp add: run_defs)

text \<open>
  C9 says that \<open>Stringify\<close> leaves the output of the context as the evaluation of its
  argument left it, and the comment in \<open>Stringify::Execute\<close> says the same. The code
  hands the context to \<open>Object::Print\<close>, which runs the method \<open>__str__\<close> of an instance
  with it: evaluating the argument \<open>s\<close> prints nothing, and \<open>str(s)\<close> prints the line
  that \<open>__str__\<close> prints.
\<close>

theorem Stringify_str_method_prints:
  "Execute 1 (VariableValue [''s'']) closure_s empty_world
     = (Inr (Share (ClassInstance class_S 0)), closure_s, empty_world) \<and>
   output_stream empty_world = [] \<and>
   fst (Execute 2 (Stringify (VariableValue [''s''])) closure_s empty_world)
     = Inr (Own 2 (String ''None'')) \<and>
   output_stream (snd (snd (Execute 2 (Stringify (VariableValue [''s''])) closure_s empty_world)))
     = ''None'' @ [CHR 0x0A]"
  by (simp add: run_defs class_S_def closure_s_def)

section \<open>NewInstance (C10)\<close>




section \<open>Indentation (C2, C3)\<close>

text \<open>The definitions that \<open>simp\<close> unfolds to run the lexer on a given text.\<close>

lemmas lexer_defs = Lexer_of_def initial_Lexer_def ParseTokens_def ParseTokens_round_def steps_before_ExtractDent_def
  ExtractKeywordOrId_def ExtractOperatorEqOrSymbol_def ExtractIntValue_def ExtractString_def
  ExtractComments_def ExtractNewLine_def ExtractDent_def RemovingSpacesBeforeTokens_def
  IsEof_def peek_def get_def putback_def getline_def good_def emplace_back_def back_is_def
  isalpha_def isdigit_def isalnum_def ispunct_def AddKeyword_def to_int16_def stoi_def escaped_def
  ReadWord.simps read_digits.simps read_string.simps skip_spaces.simps count_spaces.simps
  ParseTokens_loop.simps

text \<open>Fuel that suffices for the loop of \<open>ParseTokens\<close> suffices when there is more of it.\<close>

lemma ParseTokens_loop_more_fuel:
  "ParseTokens_loop fuel lx = Some r \<Longrightarrow> ParseTokens_loop (fuel + k) lx = Some r"
proof (induction fuel lx rule: ParseTokens_loop.induct)
  case (1 fuel lx)
  show ?case
  proof (cases "failbit (input_tokens lx)")
    case True
    with "1.prems" show ?thesis by (simp add: ParseTokens_loop.simps)
  next
    case False
    with "1.prems" have f: "fuel \<noteq> 0" by (auto simp: ParseTokens_loop.simps split: if_splits)
    show ?thesis
    proof (cases "ParseTokens_round lx")
      case (Inl e)
      with False f "1.prems" show ?thesis
        by (auto simp: ParseTokens_loop.simps [of fuel] ParseTokens_loop.simps [of "fuel + k"])
    next
      case (Inr lx1)
      with False f "1.prems" have "ParseTokens_loop (fuel - 1) lx1 = Some r"
        by (simp add: ParseTokens_loop.simps [of fuel])
      from "1.IH" [OF False f Inr this] have "ParseTokens_loop (fuel - 1 + k) lx1 = Some r" .
      moreover from f have "fuel - 1 + k = fuel + k - 1" by simp
      ultimately show ?thesis using False f Inr
        by (simp add: ParseTokens_loop.simps [of "fuel + k"])
    qed
  qed
qed

lemma Lexer_of_more_fuel:
  assumes "Lexer_of fuel text = Some r"
  shows "Lexer_of (fuel + k) text = Some r"
proof -
  let ?start = "RemovingSpacesBeforeTokens (initial_Lexer text)"
  from assms obtain r' where "ParseTokens_loop fuel ?start = Some r'"
    by (auto simp: Lexer_of_def ParseTokens_def split: option.splits)
  from ParseTokens_loop_more_fuel [OF this, of k] this assms show ?thesis
    by (simp add: Lexer_of_def ParseTokens_def)
qed







text \<open>
  \<open>ExtractDent\<close> runs only after a \<open>Newline\<close> token: a line that follows a comment line
  which itself follows a \<open>Dedent\<close> is not checked either.
\<close>

lemma odd_indent_after_comment_accepted:
  "Lexer_of 8 (''a'' @ [CHR 0x0A] @ ''  b'' @ [CHR 0x0A] @ ''# c'' @ [CHR 0x0A] @ ''   d'' @ [CHR 0x0A])
     = Some (Inr [Token_Id ''a'', Token_Newline, Token_Indent, Token_Id ''b'', Token_Newline,
                  Token_Dedent, Token_Id ''d'', Token_Newline, Token_Eof])"
  by (simp add: lexer_defs)

text \<open>
  Every step of a round but \<open>ExtractDent\<close> leaves \<open>current_dent_\<close> alone and adds at most
  one token, neither \<open>Indent\<close> nor \<open>Dedent\<close>; \<open>ExtractDent\<close> adds \<open>Indent\<close> tokens, or no
  more \<open>Dedent\<close> tokens than \<open>current_dent_\<close> counts. So in the tokens of an accepted text
  no prefix holds more \<open>Dedent\<close> than \<open>Indent\<close> tokens.
\<close>

lemma dent_level_append: "dent_level (xs @ ys) = dent_level xs + dent_level ys"
  by (simp add: dent_level_def)

lemma dent_level_plain: "t \<noteq> Token_Indent \<Longrightarrow> t \<noteq> Token_Dedent \<Longrightarrow> dent_level [t] = 0"
  by (simp add: dent_level_def)

lemma dent_level_take_plain:
  assumes "t \<noteq> Token_Indent" "t \<noteq> Token_Dedent"
  shows "dent_level (take n (ts @ [t])) = dent_level (take n ts)"
proof (cases "n \<le> length ts")
  case True
  then show ?thesis by simp
next
  case False
  with assms show ?thesis by (simp add: dent_level_append dent_level_plain)
qed

lemma plain_step_inv:
  assumes "plain_step lx lx'" "dent_inv lx"
  shows "dent_inv lx'"
proof -
  from assms(1) consider "tokens lx' = tokens lx" |
    t where "tokens lx' = tokens lx @ [t]" "t \<noteq> Token_Indent" "t \<noteq> Token_Dedent"
    by (auto simp: plain_step_def)
  then show ?thesis
  proof cases
    case 1
    with assms show ?thesis by (simp add: dent_inv_def plain_step_def)
  next
    case 2
    from 2 have "\<And>n. dent_level (take n (tokens lx')) = dent_level (take n (tokens lx))"
      using dent_level_take_plain [of t _ "tokens lx"] by simp
    moreover from 2 have "dent_level (tokens lx') = dent_level (tokens lx)"
      by (simp add: dent_level_append dent_level_plain)
    ultimately show ?thesis using assms by (simp add: dent_inv_def plain_step_def)
  qed
qed

lemma plain_same: "plain_step lx (lx\<lparr>input_tokens := s\<rparr>)"
  by (simp add: plain_step_def)

lemma plain_emplace:
  "t \<noteq> Token_Indent \<Longrightarrow> t \<noteq> Token_Dedent \<Longrightarrow>
   plain_step lx (emplace_back t (lx\<lparr>input_tokens := s\<rparr>))"
  by (simp add: plain_step_def emplace_back_def)

lemma AddKeyword_plain:
  "AddKeyword w = Some t \<Longrightarrow> t \<noteq> Token_Indent \<and> t \<noteq> Token_Dedent"
  by (auto simp: AddKeyword_def split: if_splits)

lemma ExtractKeywordOrId_plain: "plain_step lx (ExtractKeywordOrId lx)"
  unfolding ExtractKeywordOrId_def
  by (simp add: plain_same plain_emplace AddKeyword_plain
      split: prod.split bool.split option.split)

lemma ExtractOperatorEqOrSymbol_plain: "plain_step lx (ExtractOperatorEqOrSymbol lx)"
  unfolding ExtractOperatorEqOrSymbol_def
  by (simp add: plain_same plain_emplace split: prod.split bool.split option.split)

lemma ExtractIntValue_plain: "ExtractIntValue lx = Inr lx' \<Longrightarrow> plain_step lx lx'"
  unfolding ExtractIntValue_def
  by (auto simp: plain_same plain_emplace split: prod.splits bool.splits option.splits sum.splits if_splits)

lemma ExtractString_plain: "ExtractString lx = Inr lx' \<Longrightarrow> plain_step lx lx'"
  unfolding ExtractString_def
  by (auto simp: plain_same plain_emplace split: prod.splits bool.splits option.splits sum.splits if_splits)

lemma ExtractComments_plain: "plain_step lx (ExtractComments lx)"
  unfolding ExtractComments_def Let_def
  by (simp add: plain_same plain_emplace split: prod.split)

lemma ExtractNewLine_plain: "plain_step lx (ExtractNewLine lx)"
  unfolding ExtractNewLine_def Let_def
  by (simp add: plain_same plain_emplace split: prod.split bool.split)

lemma RemovingSpacesBeforeTokens_plain: "plain_step lx (RemovingSpacesBeforeTokens lx)"
  by (simp add: RemovingSpacesBeforeTokens_def plain_same)


lemma count_spaces_bound:
  "n < 65536 \<Longrightarrow> fst (count_spaces s n) < 65536"
proof (induction s n rule: count_spaces.induct)
  case (1 input count_space)
  show ?case
  proof (cases "peek input")
    case (Pair c s)
    show ?thesis
    proof (cases "c = Some (CHR '' '')")
      case True
      with Pair "1.IH"
      have "fst (count_spaces (snd (get s)) ((count_space + 1) mod 65536)) < 65536"
        by auto
      with Pair True show ?thesis by (subst count_spaces.simps) simp
    next
      case False
      with Pair "1.prems" show ?thesis
        by (subst count_spaces.simps) (auto split: option.splits)
    qed
  qed
qed

lemma indent_loop_tokens:
  "tokens (indent_loop k lx) = tokens lx @ replicate k Token_Indent \<and>
   current_dent (indent_loop k lx) = (if k = 0 then current_dent lx else (current_dent lx + k) mod 65536)"
proof (induction k arbitrary: lx)
  case 0
  show ?case by simp
next
  case (Suc k)
  show ?case
    by (simp add: Suc.IH emplace_back_def replicate_app_Cons_same mod_simps)
qed

lemma dedent_loop_tokens:
  "k \<le> current_dent lx \<Longrightarrow>
   \<exists>lx'. dedent_loop k lx = Inr lx' \<and> tokens lx' = tokens lx @ replicate k Token_Dedent \<and>
         current_dent lx' = current_dent lx - k"
proof (induction k arbitrary: lx)
  case 0
  show ?case by simp
next
  case (Suc k)
  let ?next = "(emplace_back Token_Dedent lx)\<lparr>current_dent := current_dent lx - 1\<rparr>"
  from Suc.prems have "k \<le> current_dent ?next" by simp
  from Suc.IH [OF this] obtain lx' where
    "dedent_loop k ?next = Inr lx'" "tokens lx' = tokens ?next @ replicate k Token_Dedent"
    "current_dent lx' = current_dent ?next - k"
    by blast
  with Suc.prems show ?case
    by (simp add: emplace_back_def replicate_app_Cons_same)
qed

lemma dent_level_replicate_Indent: "dent_level (replicate k Token_Indent) = int k"
  by (induction k) (simp_all add: dent_level_def)

lemma dent_level_replicate_Dedent: "dent_level (replicate k Token_Dedent) = - int k"
  by (induction k) (simp_all add: dent_level_def)

lemma dent_inv_indent:
  assumes "dent_inv lx" and "tokens lx' = tokens lx @ replicate k Token_Indent"
    and "current_dent lx' = current_dent lx + k" and "current_dent lx + k < 32768"
  shows "dent_inv lx'"
proof -
  have "0 \<le> dent_level (take n (tokens lx'))" for n
  proof -
    have "dent_level (take n (tokens lx')) =
            dent_level (take n (tokens lx)) + int (min k (n - length (tokens lx)))"
      by (simp add: assms(2) dent_level_append dent_level_replicate_Indent)
    with assms(1) show ?thesis
      by (auto simp: dent_inv_def intro: add_nonneg_nonneg)
  qed
  moreover have "dent_level (tokens lx') = int (current_dent lx')"
    using assms by (simp add: dent_inv_def dent_level_append dent_level_replicate_Indent)
  ultimately show ?thesis using assms(3,4) by (simp add: dent_inv_def)
qed

lemma dent_inv_dedent:
  assumes "dent_inv lx" and "tokens lx' = tokens lx @ replicate k Token_Dedent"
    and "current_dent lx' = current_dent lx - k" and "k \<le> current_dent lx"
  shows "dent_inv lx'"
proof -
  have "0 \<le> dent_level (take n (tokens lx'))" for n
  proof (cases "n \<le> length (tokens lx)")
    case True
    with assms(1,2) show ?thesis by (simp add: dent_inv_def)
  next
    case False
    then have "dent_level (take n (tokens lx')) =
            dent_level (tokens lx) - int (min k (n - length (tokens lx)))"
      by (simp add: assms(2) dent_level_append dent_level_replicate_Dedent)
    with assms(1,4) show ?thesis
      by (simp add: dent_inv_def)
  qed
  moreover have "dent_level (tokens lx') = int (current_dent lx')"
    using assms by (simp add: dent_inv_def dent_level_append dent_level_replicate_Dedent)
  moreover from assms(1,3) have "current_dent lx' < 32768"
    by (simp add: dent_inv_def) arith
  ultimately show ?thesis by (simp add: dent_inv_def)
qed

lemma dent_inv_stream: "dent_inv (lx\<lparr>input_tokens := s\<rparr>) = dent_inv lx"
  by (simp add: dent_inv_def)

lemma to_int16_small: "- 32768 \<le> i \<Longrightarrow> i < 32768 \<Longrightarrow> to_int16 i = i"
  by (simp add: to_int16_def)

lemma ExtractDent_inv:
  assumes "ExtractDent lx = Inr lx'" and "dent_inv lx"
  shows "dent_inv lx'"
proof (cases "tokens lx \<noteq> [] \<and> \<not> back_is Token_Newline lx")
  case True
  with assms show ?thesis by (simp add: ExtractDent_def)
next
  case False
  obtain c s where p: "peek (input_tokens lx) = (c, s)" by force
  show ?thesis
  proof (cases "c = Some (CHR 0x0A)")
    case True
    with assms False p show ?thesis by (auto simp: ExtractDent_def dent_inv_stream)
  next
    case nl: False
    obtain cnt s1 where cs: "count_spaces s 0 = (cnt, s1)" by force
    from count_spaces_bound [of 0 s] cs have cnt: "cnt < 65536" by simp
    from assms(2) have cur: "current_dent lx < 32768" by (simp add: dent_inv_def)
    let ?m = "cnt div 2"
    let ?lx1 = "lx\<lparr>input_tokens := s1\<rparr>"
    from cnt have m: "?m < 32768" by simp
    from m cur have d: "to_int16 (int ?m - int (current_dent lx)) = int ?m - int (current_dent lx)"
      by (intro to_int16_small) simp_all
    from assms(1) False p nl cs have even: "cnt mod 2 = 0"
      by (auto simp: ExtractDent_def split: if_splits)
    have inv1: "dent_inv ?lx1" using assms(2) by (simp add: dent_inv_stream)
    show ?thesis
    proof (cases "current_dent lx < ?m")
      case True
      define k where "k = ?m - current_dent lx"
      from True have k: "nat (int ?m - int (current_dent lx)) = k" "k \<noteq> 0"
        "current_dent lx + k = ?m"
        by (simp_all add: k_def)
      from assms(1) False p nl cs even d True k have "lx' = indent_loop k ?lx1"
        by (simp add: ExtractDent_def Let_def)
      moreover from indent_loop_tokens [of k ?lx1] k m
      have "tokens (indent_loop k ?lx1) = tokens ?lx1 @ replicate k Token_Indent"
        "current_dent (indent_loop k ?lx1) = current_dent ?lx1 + k"
        by simp_all
      ultimately show ?thesis
        using dent_inv_indent [OF inv1, of lx' k] k m by simp
    next
      case ge: False
      define k where "k = current_dent lx - ?m"
      from ge have k: "nat (- (int ?m - int (current_dent lx))) = k" "k \<le> current_dent ?lx1"
        by (simp_all add: k_def)
      from assms(1) False p nl cs even d ge k have dl: "dedent_loop k ?lx1 = Inr lx'"
        by (simp add: ExtractDent_def Let_def)
      from dedent_loop_tokens [OF k(2)] dl
      have "tokens lx' = tokens ?lx1 @ replicate k Token_Dedent"
        "current_dent lx' = current_dent ?lx1 - k"
        by auto
      with dent_inv_dedent [OF inv1, of lx' k] k show ?thesis by simp
    qed
  qed
qed

lemma steps_before_ExtractDent_inv:
  assumes "steps_before_ExtractDent lx = Inr lx'" and "dent_inv lx"
  shows "dent_inv lx'"
proof -
  from assms(1) obtain lx1 lx2 where
    1: "ExtractIntValue (ExtractOperatorEqOrSymbol (ExtractKeywordOrId lx)) = Inr lx1" and
    2: "ExtractString lx1 = Inr lx2" and
    3: "lx' = ExtractNewLine (ExtractComments (RemovingSpacesBeforeTokens lx2))"
    by (auto simp: steps_before_ExtractDent_def split: sum.splits)
  have "dent_inv (ExtractKeywordOrId lx)"
    using ExtractKeywordOrId_plain assms(2) by (rule plain_step_inv)
  then have "dent_inv (ExtractOperatorEqOrSymbol (ExtractKeywordOrId lx))"
    using ExtractOperatorEqOrSymbol_plain plain_step_inv by blast
  then have "dent_inv lx1"
    using ExtractIntValue_plain [OF 1] plain_step_inv by blast
  then have "dent_inv lx2"
    using ExtractString_plain [OF 2] plain_step_inv by blast
  then have "dent_inv (RemovingSpacesBeforeTokens lx2)"
    using RemovingSpacesBeforeTokens_plain plain_step_inv by blast
  then have "dent_inv (ExtractComments (RemovingSpacesBeforeTokens lx2))"
    using ExtractComments_plain plain_step_inv by blast
  then show ?thesis
    unfolding 3 using ExtractNewLine_plain plain_step_inv by blast
qed

lemma ParseTokens_round_inv:
  assumes "ParseTokens_round lx = Inr lx'" and "dent_inv lx"
  shows "dent_inv lx'"
proof -
  from assms(1) obtain lx1 where
    1: "steps_before_ExtractDent lx = Inr lx1" and 2: "ExtractDent lx1 = Inr lx'"
    by (auto simp: ParseTokens_round_def split: sum.splits)
  from steps_before_ExtractDent_inv [OF 1 assms(2)] have "dent_inv lx1" .
  with 2 show ?thesis by (rule ExtractDent_inv)
qed

lemma ParseTokens_loop_inv:
  "ParseTokens_loop fuel lx = Some (Inr lx') \<Longrightarrow> dent_inv lx \<Longrightarrow> dent_inv lx'"
proof (induction fuel lx rule: ParseTokens_loop.induct)
  case (1 fuel lx)
  show ?case
  proof (cases "failbit (input_tokens lx)")
    case True
    with "1.prems" show ?thesis by (simp add: ParseTokens_loop.simps)
  next
    case False
    with "1.prems" have f: "fuel \<noteq> 0"
      by (auto simp: ParseTokens_loop.simps split: if_splits)
    with False "1.prems" obtain lx1 where
      r: "ParseTokens_round lx = Inr lx1" and l: "ParseTokens_loop (fuel - 1) lx1 = Some (Inr lx')"
      by (subst (asm) ParseTokens_loop.simps) (auto split: sum.splits)
    from ParseTokens_round_inv [OF r "1.prems"(2)] have "dent_inv lx1" .
    with "1.IH" [OF False f r l] show ?thesis .
  qed
qed

lemma dent_inv_initial: "dent_inv (initial_Lexer text)"
  by (simp add: dent_inv_def initial_Lexer_def dent_level_def)

lemma emplace_back_plain:
  "t \<noteq> Token_Indent \<Longrightarrow> t \<noteq> Token_Dedent \<Longrightarrow> plain_step lx (emplace_back t lx)"
  by (simp add: plain_step_def emplace_back_def)

lemma ParseTokens_inv:
  assumes "ParseTokens fuel lx = Some (Inr lx')" and "dent_inv lx"
  shows "dent_inv lx'"
proof -
  from assms(1) obtain lx1 where
    l: "ParseTokens_loop fuel (RemovingSpacesBeforeTokens lx) = Some (Inr lx1)" and
    e: "lx' = emplace_back Token_Eof
              (if tokens lx1 \<noteq> [] \<and> \<not> back_is Token_Newline lx1 \<and> \<not> back_is Token_Dedent lx1
               then emplace_back Token_Newline lx1 else lx1)"
    by (auto simp: ParseTokens_def split: option.splits sum.splits)
  have "dent_inv (RemovingSpacesBeforeTokens lx)"
    using RemovingSpacesBeforeTokens_plain assms(2) by (rule plain_step_inv)
  with l have 1: "dent_inv lx1" by (rule ParseTokens_loop_inv)
  have "dent_inv (emplace_back Token_Newline lx1)"
    using emplace_back_plain 1 by (rule plain_step_inv) simp_all
  with 1 have "dent_inv (if tokens lx1 \<noteq> [] \<and> \<not> back_is Token_Newline lx1 \<and> \<not> back_is Token_Dedent lx1
               then emplace_back Token_Newline lx1 else lx1)" by simp
  with emplace_back_plain show ?thesis unfolding e by (rule plain_step_inv) simp_all
qed

lemma Dedent_never_exceeds_Indent:
  assumes "Lexer_of fuel text = Some (Inr ts)"
  shows "count_list (take n ts) Token_Dedent \<le> count_list (take n ts) Token_Indent"
proof -
  from assms obtain lx where p: "ParseTokens fuel (initial_Lexer text) = Some (Inr lx)"
    and ts: "ts = tokens lx"
    by (auto simp: Lexer_of_def split: option.splits sum.splits)
  from ParseTokens_inv [OF p dent_inv_initial] have "0 \<le> dent_level (take n (tokens lx))"
    by (simp add: dent_inv_def)
  with ts show ?thesis by (simp add: dent_level_def)
qed

text \<open>
  C2 says that the token stream of every accepted text has as many \<open>Dedent\<close> as
  \<open>Indent\<close> tokens. At the end of the stream \<open>ExtractDent\<close> closes the open indents only
  when the last token is \<open>Newline\<close>: a text that ends in an indented line with no
  newline after it gets its \<open>Newline\<close> from the end of \<open>ParseTokens\<close> and no \<open>Dedent\<close>,
  while the same text with the newline gets the \<open>Dedent\<close>.
\<close>

theorem indent_not_closed_at_end:
  "Lexer_of 3 (''a'' @ [CHR 0x0A] @ ''  b'')
     = Some (Inr [Token_Id ''a'', Token_Newline, Token_Indent, Token_Id ''b'', Token_Newline, Token_Eof]) \<and>
   Lexer_of 4 (''a'' @ [CHR 0x0A] @ ''  b'' @ [CHR 0x0A])
     = Some (Inr [Token_Id ''a'', Token_Newline, Token_Indent, Token_Id ''b'', Token_Newline,
                  Token_Dedent, Token_Eof])"
  by (simp add: lexer_defs)


section \<open>Fuel\<close>

text \<open>
  The fuel bounds the depth of method calls and nothing else. From here on the
  equations of \<open>Call\<close> and of the comparisons are unfolded on demand only.
\<close>

declare Call.simps [simp del] Equal.simps [simp del] Less.simps [simp del] NotEqual.simps [simp del]
  Greater.simps [simp del] LessOrEqual.simps [simp del] GreaterOrEqual.simps [simp del]

lemma TryAs_ClassInstance_Some:
  "TryAs_ClassInstance h = Some (cls, a) \<Longrightarrow> Get h = Some (ClassInstance cls a)"
  by (auto simp: TryAs_ClassInstance_def split: option.splits Object.splits)

lemma Equal_of_instance:
  assumes "Get lhs = Some (ClassInstance cls a)" and "HasMethod cls ''__eq__'' 1"
  shows "Equal m lhs rhs w =
           (case Call m cls a ''__eq__'' [rhs] (copy_holder rhs (copy_holder rhs w)) of
              (Inl e, w1) \<Rightarrow> (Inl e, destroy_holder rhs (destroy_holder rhs w1))
            | (Inr r, w1) \<Rightarrow>
                (case TryAs_Bool r of
                   Some b \<Rightarrow> (Inr b, destroy_holder rhs (destroy_holder rhs (destroy_holder r w1)))
                 | None \<Rightarrow> (Inl undefined_behaviour, w1)))"
  using assms
  by (simp add: Equal.simps [of m] TryAs_Bool_def TryAs_Number_def TryAs_String_def
        TryAs_ClassInstance_def)

lemma Less_of_instance:
  assumes "Get lhs = Some (ClassInstance cls a)" and "HasMethod cls ''__lt__'' 1"
  shows "Less m lhs rhs w =
           (case Call m cls a ''__lt__'' [rhs] (copy_holder rhs (copy_holder rhs w)) of
              (Inl e, w1) \<Rightarrow> (Inl e, destroy_holder rhs (destroy_holder rhs w1))
            | (Inr r, w1) \<Rightarrow>
                (case TryAs_Bool r of
                   Some b \<Rightarrow> (Inr b, destroy_holder rhs (destroy_holder rhs (destroy_holder r w1)))
                 | None \<Rightarrow> (Inl undefined_behaviour, w1)))"
  using assms
  by (simp add: Less.simps [of m] TryAs_Bool_def TryAs_Number_def TryAs_String_def
        TryAs_ClassInstance_def)

lemma Equal_without_method:
  assumes "\<not> (\<exists>cls a. TryAs_ClassInstance lhs = Some (cls, a) \<and> HasMethod cls ''__eq__'' 1)"
  shows "Equal m lhs rhs w = Equal m' lhs rhs w"
  using assms
  by (auto simp: Equal.simps [of m] Equal.simps [of m'] split: prod.splits option.splits)

lemma Less_without_method:
  assumes "\<not> (\<exists>cls a. TryAs_ClassInstance lhs = Some (cls, a) \<and> HasMethod cls ''__lt__'' 1)"
  shows "Less m lhs rhs w = Less m' lhs rhs w"
  using assms
  by (auto simp: Less.simps [of m] Less.simps [of m'] split: prod.splits option.splits)

text \<open>
  A call that leaves otherwise than by \<open>out_of_fuel\<close> leaves the same way, with the same
  closure and world, on any larger fuel.
\<close>

lemma more_fuel:
  "fst (Execute n s c w) \<noteq> Inl out_of_fuel \<Longrightarrow> Execute (n + k) s c w = Execute n s c w"
  "fst (Execute_args n ss c w) \<noteq> Inl out_of_fuel \<Longrightarrow> Execute_args (n + k) ss c w = Execute_args n ss c w"
  "fst (Compound_loop n ss c w) \<noteq> Inl out_of_fuel \<Longrightarrow> Compound_loop (n + k) ss c w = Compound_loop n ss c w"
  "fst (Print_loop n ss first os c w) \<noteq> Inl out_of_fuel \<Longrightarrow>
     Print_loop (n + k) ss first os c w = Print_loop n ss first os c w"
  "fst (Call n cls a m args w) \<noteq> Inl out_of_fuel \<Longrightarrow> Call (n + k) cls a m args w = Call n cls a m args w"
  "fst (Object_Print n obj os w) \<noteq> Inl out_of_fuel \<Longrightarrow> Object_Print (n + k) obj os w = Object_Print n obj os w"
  "fst (Equal n l r w) \<noteq> Inl out_of_fuel \<Longrightarrow> Equal (n + k) l r w = Equal n l r w"
  "fst (Less n l r w) \<noteq> Inl out_of_fuel \<Longrightarrow> Less (n + k) l r w = Less n l r w"
  "fst (NotEqual n l r w) \<noteq> Inl out_of_fuel \<Longrightarrow> NotEqual (n + k) l r w = NotEqual n l r w"
  "fst (Greater n l r w) \<noteq> Inl out_of_fuel \<Longrightarrow> Greater (n + k) l r w = Greater n l r w"
  "fst (LessOrEqual n l r w) \<noteq> Inl out_of_fuel \<Longrightarrow> LessOrEqual (n + k) l r w = LessOrEqual n l r w"
  "fst (GreaterOrEqual n l r w) \<noteq> Inl out_of_fuel \<Longrightarrow> GreaterOrEqual (n + k) l r w = GreaterOrEqual n l r w"
  "fst (apply_cmp n cmp l r w) \<noteq> Inl out_of_fuel \<Longrightarrow> apply_cmp (n + k) cmp l r w = apply_cmp n cmp l r w"
proof (induction n s c w and n ss c w and n ss c w and n ss first os c w and n cls a m args w
        and n obj os w and n l r w and n l r w and n l r w and n l r w and n l r w and n l r w
        and n cmp l r w
        rule: Execute_Execute_args_Compound_loop_Print_loop_Call_Object_Print_Equal_Less_NotEqual_Greater_LessOrEqual_GreaterOrEqual_apply_cmp.induct)
  case (17 n body_stmt closure w)
  then show ?case
    by (cases "Execute n body_stmt closure w" rule: prod_cases3)
       (auto split: sum.splits abrupt.splits)
next
  case (28 n cls a meth actual_args w)
  from "28.prems" have n: "n \<noteq> 0 \<or> \<not> HasMethod cls meth (length actual_args) \<or>
      GetMethod cls meth = None \<or>
      (\<exists>m. GetMethod cls meth = Some m \<and> length actual_args < length (formal_params m))"
    by (auto simp: Call.simps [of n] split: option.splits if_splits)
  show ?case
  proof (cases "HasMethod cls meth (length actual_args)")
    case False
    then show ?thesis by (simp add: Call.simps [of n] Call.simps [of "n + k"])
  next
    case h: True
    show ?thesis
    proof (cases "GetMethod cls meth")
      case None
      with h show ?thesis by (simp add: Call.simps [of n] Call.simps [of "n + k"])
    next
      case (Some m)
      show ?thesis
      proof (cases "length actual_args < length (formal_params m)")
        case True
        with h Some show ?thesis by (simp add: Call.simps [of n] Call.simps [of "n + k"])
      next
        case False
        with n h Some have n0: "n \<noteq> 0" by auto
        then have eq: "n + k - 1 = n - 1 + k" by simp
        obtain frame w0 where
          b: "bind_params (formal_params m) actual_args
                [(''self'', Share (ClassInstance cls a))] w = (frame, w0)"
          by force
        from "28.prems" h Some False n0 b
        have "fst (Execute (n - 1) (body m) frame w0) \<noteq> Inl out_of_fuel"
          by (auto simp: Call.simps [of n] split: prod.splits)
        from "28.IH" [OF _ Some False n0 b [symmetric] this] h
        have "Execute (n - 1 + k) (body m) frame w0 = Execute (n - 1) (body m) frame w0"
          by simp
        with h Some False n0 eq b show ?thesis
          by (simp add: Call.simps [of n] Call.simps [of "n + k"])
      qed
    qed
  qed
next
  case (36 n lhs rhs w)
  from "36.prems" have "fst (Equal n lhs rhs w) \<noteq> Inl out_of_fuel"
    by (auto simp: NotEqual.simps [of n] split: prod.splits sum.splits)
  from "36.IH" [OF this] show ?case
    by (simp add: NotEqual.simps [of n] NotEqual.simps [of "n + k"])
next
  case (39 n lhs rhs w)
  from "39.prems" have "fst (Less n lhs rhs w) \<noteq> Inl out_of_fuel"
    by (auto simp: GreaterOrEqual.simps [of n] split: prod.splits sum.splits)
  from "39.IH" [OF this] show ?case
    by (simp add: GreaterOrEqual.simps [of n] GreaterOrEqual.simps [of "n + k"])
next
  case (34 n lhs rhs w)
  show ?case
  proof (cases "\<exists>cls a. TryAs_ClassInstance lhs = Some (cls, a) \<and> HasMethod cls ''__eq__'' 1")
    case False
    then show ?thesis by (rule Equal_without_method)
  next
    case True
    then obtain cls a where i: "TryAs_ClassInstance lhs = Some (cls, a)"
      and h: "HasMethod cls ''__eq__'' 1" by blast
    from i have g: "Get lhs = Some (ClassInstance cls a)" by (rule TryAs_ClassInstance_Some)
    note eq = Equal_of_instance [OF g h]
    from "34.prems" have c: "fst (Call n cls a ''__eq__'' [rhs]
        (copy_holder rhs (copy_holder rhs w))) \<noteq> Inl out_of_fuel"
      by (auto simp: eq [of n] split: prod.splits sum.splits)
    from g have t: "TryAs_Bool lhs = None" "TryAs_Number lhs = None" "TryAs_String lhs = None"
      by (simp_all add: TryAs_Bool_def TryAs_Number_def TryAs_String_def)
    have "Call (n + k) cls a ''__eq__'' [rhs] (copy_holder rhs (copy_holder rhs w))
            = Call n cls a ''__eq__'' [rhs] (copy_holder rhs (copy_holder rhs w))"
      by (rule "34.IH"(1) [of None "TryAs_Bool rhs" None "TryAs_Number rhs" None
                "TryAs_String rhs" "(cls, a)" cls a])
         (use g t i h c in simp_all)
    then show ?thesis by (simp add: eq)
  qed
next
  case (35 n lhs rhs w)
  show ?case
  proof (cases "\<exists>cls a. TryAs_ClassInstance lhs = Some (cls, a) \<and> HasMethod cls ''__lt__'' 1")
    case False
    then show ?thesis by (rule Less_without_method)
  next
    case True
    then obtain cls a where i: "TryAs_ClassInstance lhs = Some (cls, a)"
      and h: "HasMethod cls ''__lt__'' 1" by blast
    from i have g: "Get lhs = Some (ClassInstance cls a)" by (rule TryAs_ClassInstance_Some)
    note eq = Less_of_instance [OF g h]
    from "35.prems" have c: "fst (Call n cls a ''__lt__'' [rhs]
        (copy_holder rhs (copy_holder rhs w))) \<noteq> Inl out_of_fuel"
      by (auto simp: eq [of n] split: prod.splits sum.splits)
    from g have t: "TryAs_Bool lhs = None" "TryAs_Number lhs = None" "TryAs_String lhs = None"
      by (simp_all add: TryAs_Bool_def TryAs_Number_def TryAs_String_def)
    have "Call (n + k) cls a ''__lt__'' [rhs] (copy_holder rhs (copy_holder rhs w))
            = Call n cls a ''__lt__'' [rhs] (copy_holder rhs (copy_holder rhs w))"
      by (rule "35.IH"(1) [of None "TryAs_Bool rhs" None "TryAs_Number rhs" None
                "TryAs_String rhs" "(cls, a)" cls a])
         (use g t i h c in simp_all)
    then show ?thesis by (simp add: eq)
  qed
next
  case (37 n lhs rhs w)
  obtain x y where l: "Less n lhs rhs w = (x, y)" by force
  with "37.prems" have "x \<noteq> Inl out_of_fuel"
    by (auto simp: Greater.simps [of n])
  with "37.IH"(1) l have l': "Less (n + k) lhs rhs w = (x, y)" by simp
  show ?case
  proof (cases x)
    case (Inl e)
    with l l' show ?thesis by (simp add: Greater.simps [of n] Greater.simps [of "n + k"])
  next
    case (Inr b)
    show ?thesis
    proof (cases b)
      case True
      with Inr l l' show ?thesis by (simp add: Greater.simps [of n] Greater.simps [of "n + k"])
    next
      case False
      with "37.prems" Inr l have "fst (NotEqual n lhs rhs y) \<noteq> Inl out_of_fuel"
        by (simp add: Greater.simps [of n])
      from "37.IH"(2) [OF l [symmetric] Inr False this] Inr False l l' show ?thesis
        by (simp add: Greater.simps [of n] Greater.simps [of "n + k"])
    qed
  qed
next
  case (38 n lhs rhs w)
  obtain x y where l: "Less n lhs rhs w = (x, y)" by force
  with "38.prems" have "x \<noteq> Inl out_of_fuel"
    by (auto simp: LessOrEqual.simps [of n])
  with "38.IH"(1) l have l': "Less (n + k) lhs rhs w = (x, y)" by simp
  show ?case
  proof (cases x)
    case (Inl e)
    with l l' show ?thesis by (simp add: LessOrEqual.simps [of n] LessOrEqual.simps [of "n + k"])
  next
    case (Inr b)
    show ?thesis
    proof (cases b)
      case True
      with Inr l l' show ?thesis by (simp add: LessOrEqual.simps [of n] LessOrEqual.simps [of "n + k"])
    next
      case False
      with "38.prems" Inr l have "fst (Equal n lhs rhs y) \<noteq> Inl out_of_fuel"
        by (simp add: LessOrEqual.simps [of n])
      from "38.IH"(2) [OF l [symmetric] Inr False this] Inr False l l' show ?thesis
        by (simp add: LessOrEqual.simps [of n] LessOrEqual.simps [of "n + k"])
    qed
  qed
qed (simp_all del: Call.simps Equal.simps Less.simps NotEqual.simps Greater.simps
           LessOrEqual.simps GreaterOrEqual.simps
         split: prod.split_asm sum.split_asm option.split_asm if_split_asm)

end
